theory Spec2Isabelle
  imports Main "HOL-Library.Log_Nat"
begin

section \<open>CardMan: the OpenAI helper functions\<close>

text \<open>
  A shallow embedding of the four asynchronous helpers and of
  \<^verbatim>\<open>convertAIResponseToCardData\<close>.  JavaScript strings are modelled as lists of
  code units below 256 (the Latin-1 range), which is what \<^typ>\<open>string\<close> holds.
\<close>

subsection \<open>Code units and the string methods used by the source\<close>

definition is_digit :: "char \<Rightarrow> bool" where
  \<comment> \<open>the class \<^verbatim>\<open>\d\<close>, that is \<^verbatim>\<open>[0-9]\<close>\<close>
  "is_digit c = (c \<in> set ''0123456789'')"

definition is_lower :: "char \<Rightarrow> bool" where
  \<comment> \<open>the class \<^verbatim>\<open>[a-z]\<close>\<close>
  "is_lower c = (c \<in> set ''abcdefghijklmnopqrstuvwxyz'')"

definition is_whitespace :: "char \<Rightarrow> bool" where
  \<comment> \<open>the class \<^verbatim>\<open>\s\<close> below 256: TAB, LF, VT, FF, CR, SP and NBSP\<close>
  "is_whitespace c = ((of_char c :: nat) \<in> {9, 10, 11, 12, 13, 32, 160})"

definition toLowerCase_unit :: "char \<Rightarrow> char" where
  \<comment> \<open>\<^verbatim>\<open>A-Z\<close> and the Latin-1 capitals \<^verbatim>\<open>U+00C0..U+00DE\<close> (but not the
      multiplication sign \<^verbatim>\<open>U+00D7\<close>) move up by 32; nothing else below 256 changes\<close>
  "toLowerCase_unit c =
     (let n = (of_char c :: nat)
      in if (65 \<le> n \<and> n \<le> 90) \<or> (192 \<le> n \<and> n \<le> 222 \<and> n \<noteq> 215)
         then char_of (n + 32) else c)"

definition toLowerCase :: "string \<Rightarrow> string" where
  "toLowerCase s = map toLowerCase_unit s"

definition replace_special :: "string \<Rightarrow> string" where
  \<comment> \<open>\<^verbatim>\<open>.replace(/[^a-z0-9\s]/g, '')\<close>\<close>
  "replace_special s = filter (\<lambda>c. is_lower c \<or> is_digit c \<or> is_whitespace c) s"

function replace_whitespace :: "string \<Rightarrow> string" where
  \<comment> \<open>\<^verbatim>\<open>.replace(/\s+/g, '-')\<close>: every maximal run of whitespace becomes one hyphen\<close>
  "replace_whitespace [] = []"
| "replace_whitespace (c # cs) =
     (if is_whitespace c then CHR ''-'' # replace_whitespace (dropWhile is_whitespace cs)
      else c # replace_whitespace cs)"
  by pat_completeness auto
termination
  by (relation "measure length") (auto simp: less_Suc_eq_le length_dropWhile_le)

definition card_id_of :: "string \<Rightarrow> string" where
  \<comment> \<open>lines 186-188: the chain applied to \<^verbatim>\<open>aiResponse.card_name\<close>\<close>
  "card_id_of name = replace_whitespace (replace_special (toLowerCase name))"

definition categoryKey_of :: "string \<Rightarrow> string" where
  \<comment> \<open>lines 166-169: the same chain, then \<^verbatim>\<open>.substring(0, 30)\<close>\<close>
  "categoryKey_of category = take 30 (replace_whitespace (replace_special (toLowerCase category)))"

subsection \<open>Numbers\<close>

text \<open>
  A Number is NaN, an infinity, or a finite binary64 value, held as the rational it
  denotes (the two zeros are one value here: they agree on truthiness and on their
  string).  \<open>binary64\<close> is "the Number value for" a real of ECMA-262: the nearest
  double, ties to the even significand, with overflow to an infinity.
\<close>

datatype jsnum = NaN | PosInfinity | NegInfinity | Finite rat

definition pow2 :: "int \<Rightarrow> rat" where
  "pow2 e = (if 0 \<le> e then of_int (2 ^ nat e) else 1 / of_int (2 ^ nat (- e)))"

definition pow10 :: "int \<Rightarrow> rat" where
  "pow10 e = (if 0 \<le> e then of_int (10 ^ nat e) else 1 / of_int (10 ^ nat (- e)))"

definition ilog :: "nat \<Rightarrow> rat \<Rightarrow> int" where
  \<comment> \<open>for \<open>0 < q\<close> and \<open>1 < b\<close>: the integer \<open>e\<close> with \<open>b ^ e \<le> q < b ^ (e + 1)\<close>\<close>
  "ilog b q =
     (let (n, d) = quotient_of q;
          e = int (floorlog b (nat n)) - int (floorlog b (nat d));
          p = (if 0 \<le> e then of_nat (b ^ nat e) else 1 / of_nat (b ^ nat (- e)))
      in if p \<le> q then e else e - 1)"

definition round_half_even :: "rat \<Rightarrow> int" where
  "round_half_even x =
     (let f = \<lfloor>x\<rfloor>; d = x - of_int f
      in if d < 1 / 2 then f else if 1 / 2 < d then f + 1 else if even f then f else f + 1)"

definition binary64_pos :: "rat \<Rightarrow> rat option" where
  \<comment> \<open>for \<open>0 < q\<close>; \<open>None\<close> is overflow.  Normal doubles have 53 significant bits; below
      \<open>2 ^ - 1022\<close> the spacing stays \<open>2 ^ - 1074\<close> (subnormals)\<close>
  "binary64_pos q =
     (let e = max (ilog 2 q) (- 1022);
          u = pow2 (e - 52);
          r = of_int (round_half_even (q / u)) * u
      in if pow2 1024 \<le> r then None else Some r)"

definition binary64 :: "rat \<Rightarrow> jsnum" where
  "binary64 q =
     (if q = 0 then Finite 0
      else if 0 < q then (case binary64_pos q of None \<Rightarrow> PosInfinity | Some r \<Rightarrow> Finite r)
      else (case binary64_pos (- q) of None \<Rightarrow> NegInfinity | Some r \<Rightarrow> Finite (- r)))"

subsection \<open>Decimal digits\<close>

definition digit_char :: "nat \<Rightarrow> char" where
  "digit_char d = ''0123456789'' ! (d mod 10)"

definition digit_value :: "char \<Rightarrow> nat" where
  "digit_value c = of_char c - 48"

function nat_digits :: "nat \<Rightarrow> string" where
  "nat_digits n = (if n < 10 then [digit_char n] else nat_digits (n div 10) @ [digit_char n])"
  by pat_completeness auto
termination
  by (relation "measure id") auto

declare nat_digits.simps [simp del]

definition digits_value :: "string \<Rightarrow> nat" where
  \<comment> \<open>the mathematical value of a run of decimal digits\<close>
  "digits_value ds = foldl (\<lambda>n c. 10 * n + digit_value c) 0 ds"

subsection \<open>Number::toString\<close>

text \<open>
  The string of a finite positive Number \<open>x\<close> is built from integers \<open>n\<close>, \<open>k\<close>, \<open>s\<close>
  with \<open>k\<close> digits in \<open>s\<close>, where \<open>s * 10 ^ (n - k)\<close> rounds to \<open>x\<close> and \<open>k\<close> is as small
  as possible; of several \<open>s\<close> the one nearest to \<open>x\<close> is taken.  Seventeen digits
  always suffice for a double.
\<close>

definition decimal_candidates :: "rat \<Rightarrow> int \<Rightarrow> nat \<Rightarrow> nat list" where
  "decimal_candidates x n k =
     (let scale = pow10 (n - int k); lo = nat \<lfloor>x / scale\<rfloor>
      in filter (\<lambda>s. 10 ^ (k - 1) \<le> s \<and> s < 10 ^ k \<and> binary64 (of_nat s * scale) = Finite x)
           [lo, lo + 1])"

definition nearest_candidate :: "rat \<Rightarrow> rat \<Rightarrow> nat list \<Rightarrow> nat option" where
  "nearest_candidate x scale cs =
     (case cs of
        [] \<Rightarrow> None
      | [a] \<Rightarrow> Some a
      | a # b # _ \<Rightarrow>
          (let da = \<bar>of_nat a * scale - x\<bar>; db = \<bar>of_nat b * scale - x\<bar>
           in Some (if da < db then a else if db < da then b else if even a then a else b)))"

fun shortest_digits :: "rat \<Rightarrow> int \<Rightarrow> nat list \<Rightarrow> nat" where
  "shortest_digits x n [] = nat \<lfloor>x / pow10 (n - 17)\<rfloor>"
| "shortest_digits x n (k # ks) =
     (case nearest_candidate x (pow10 (n - int k)) (decimal_candidates x n k) of
        Some s \<Rightarrow> s
      | None \<Rightarrow> shortest_digits x n ks)"

definition format_decimal :: "int \<Rightarrow> nat \<Rightarrow> string" where
  \<comment> \<open>the four layouts of Number::toString, from \<open>n\<close> and the digits of \<open>s\<close>\<close>
  "format_decimal n s =
     (let ds = nat_digits s; k = int (length ds)
      in if k \<le> n \<and> n \<le> 21 then ds @ replicate (nat (n - k)) (CHR ''0'')
         else if 0 < n \<and> n \<le> 21 then take (nat n) ds @ ''.'' @ drop (nat n) ds
         else if - 6 < n \<and> n \<le> 0 then ''0.'' @ replicate (nat (- n)) (CHR ''0'') @ ds
         else
           (let e = n - 1;
                es = (if 0 \<le> e then ''+'' else ''-'') @ nat_digits (nat \<bar>e\<bar>)
            in if k = 1 then ds @ ''e'' @ es else take 1 ds @ ''.'' @ drop 1 ds @ ''e'' @ es))"

definition Number_toString_pos :: "rat \<Rightarrow> string" where
  "Number_toString_pos x =
     (let n = ilog 10 x + 1
      in if binary64 (pow10 n) = Finite x then format_decimal (n + 1) 1
         else format_decimal n (shortest_digits x n [1 ..< 18]))"

definition Number_toString :: "jsnum \<Rightarrow> string" where
  "Number_toString x =
     (case x of
        NaN \<Rightarrow> ''NaN''
      | PosInfinity \<Rightarrow> ''Infinity''
      | NegInfinity \<Rightarrow> ''-Infinity''
      | Finite q \<Rightarrow>
          (if q = 0 then ''0''
           else if q < 0 then ''-'' @ Number_toString_pos (- q)
           else Number_toString_pos q))"

subsection \<open>Values, errors, property reads\<close>

text \<open>
  The values a parsed JSON text can hold, and \<^verbatim>\<open>undefined\<close> for what a property read
  yields when the property is absent.  An object is the list of its own properties; a
  read takes the first binding of the key.
\<close>

datatype json =
    JUndefined
  | JNull
  | JBool bool
  | JNum jsnum
  | JStr string
  | JArr "json list"
  | JObj "(string \<times> json) list"

datatype js_error =
    Error string  \<comment> \<open>\<^verbatim>\<open>new Error(message)\<close>\<close>
  | TypeError
  | SyntaxError

definition truthy :: "json \<Rightarrow> bool" where
  \<comment> \<open>ToBoolean: what \<^verbatim>\<open>!v\<close>, \<^verbatim>\<open>v ? a : b\<close> and \<^verbatim>\<open>v || w\<close> test\<close>
  "truthy v =
     (case v of
        JUndefined \<Rightarrow> False
      | JNull \<Rightarrow> False
      | JBool b \<Rightarrow> b
      | JNum n \<Rightarrow> n \<noteq> NaN \<and> n \<noteq> Finite 0
      | JStr s \<Rightarrow> s \<noteq> []
      | JArr _ \<Rightarrow> True
      | JObj _ \<Rightarrow> True)"

definition nullish :: "json \<Rightarrow> bool" where
  "nullish v = (v = JUndefined \<or> v = JNull)"

definition get_prop :: "json \<Rightarrow> string \<Rightarrow> js_error + json" where
  \<comment> \<open>\<^verbatim>\<open>v.key\<close> for the keys the source reads (\<^verbatim>\<open>card_name\<close>, \<^verbatim>\<open>issuer\<close>, \<^verbatim>\<open>rate\<close>, ...):
      none of them is a property of a prototype, so only an object's own binding counts;
      reading from \<^verbatim>\<open>null\<close> or \<^verbatim>\<open>undefined\<close> throws\<close>
  "get_prop v key =
     (case v of
        JUndefined \<Rightarrow> Inl TypeError
      | JNull \<Rightarrow> Inl TypeError
      | JObj kvs \<Rightarrow> Inr (case map_of kvs key of None \<Rightarrow> JUndefined | Some w \<Rightarrow> w)
      | _ \<Rightarrow> Inr JUndefined)"

fun set_own :: "(string \<times> json) list \<Rightarrow> string \<Rightarrow> json \<Rightarrow> (string \<times> json) list" where
  "set_own [] key w = [(key, w)]"
| "set_own ((k, v) # kvs) key w =
     (if k = key then (k, w) # kvs else (k, v) # set_own kvs key w)"

definition set_prop :: "json \<Rightarrow> string \<Rightarrow> json \<Rightarrow> json" where
  \<comment> \<open>\<^verbatim>\<open>v.key = w\<close> on an object: the binding is replaced where it stands, or added\<close>
  "set_prop v key w = (case v of JObj kvs \<Rightarrow> JObj (set_own kvs key w) | _ \<Rightarrow> v)"

fun ToString :: "json \<Rightarrow> js_error + string"
  and join_comma :: "json list \<Rightarrow> js_error + string"
  and element_string :: "json \<Rightarrow> js_error + string"
where
  "ToString JUndefined = Inr ''undefined''"
| "ToString JNull = Inr ''null''"
| "ToString (JBool b) = Inr (if b then ''true'' else ''false'')"
| "ToString (JNum n) = Inr (Number_toString n)"
| "ToString (JStr s) = Inr s"
| "ToString (JArr xs) = join_comma xs"
| "ToString (JObj kvs) =
     (if map_of kvs ''toString'' \<noteq> None then Inl TypeError else Inr ''[object Object]'')"
| "join_comma [] = Inr []"
| "join_comma [x] = element_string x"
| "join_comma (x # y # ys) =
     (case element_string x of
        Inl e \<Rightarrow> Inl e
      | Inr s \<Rightarrow> (case join_comma (y # ys) of Inl e \<Rightarrow> Inl e | Inr t \<Rightarrow> Inr (s @ '','' @ t)))"
| "element_string JUndefined = Inr []"
| "element_string JNull = Inr []"
| "element_string (JBool b) = ToString (JBool b)"
| "element_string (JNum n) = ToString (JNum n)"
| "element_string (JStr s) = ToString (JStr s)"
| "element_string (JArr xs) = ToString (JArr xs)"
| "element_string (JObj kvs) = ToString (JObj kvs)"

text \<open>
  \<open>ToString\<close> is the conversion of a template literal.  An array joins its elements
  with commas, \<^verbatim>\<open>null\<close> and \<^verbatim>\<open>undefined\<close> elements giving the empty string.  A parsed
  object inherits \<^verbatim>\<open>Object.prototype.toString\<close> unless it has a key \<^verbatim>\<open>toString\<close> of its
  own, which JSON cannot make callable: then the conversion throws.
\<close>

definition toString_method :: "json \<Rightarrow> js_error + string" where
  \<comment> \<open>the call \<^verbatim>\<open>v.toString()\<close>\<close>
  "toString_method v = (if nullish v then Inl TypeError else ToString v)"

definition toLowerCase_method :: "json \<Rightarrow> js_error + string" where
  \<comment> \<open>the call \<^verbatim>\<open>v.toLowerCase()\<close>: only strings have the method\<close>
  "toLowerCase_method v = (case v of JStr s \<Rightarrow> Inr (toLowerCase s) | _ \<Rightarrow> Inl TypeError)"

definition isArray :: "json \<Rightarrow> bool" where
  "isArray v = (case v of JArr _ \<Rightarrow> True | _ \<Rightarrow> False)"

subsection \<open>The rate of a category\<close>

definition is_rate_char :: "char \<Rightarrow> bool" where
  \<comment> \<open>the class \<^verbatim>\<open>[\d.]\<close>\<close>
  "is_rate_char c = (is_digit c \<or> c = CHR ''.'')"

definition match_rate :: "string \<Rightarrow> string option" where
  \<comment> \<open>\<^verbatim>\<open>.match(/[\d.]+/)\<close>: the leftmost, longest run of digits and dots, if any\<close>
  "match_rate s =
     (let r = dropWhile (\<lambda>c. \<not> is_rate_char c) s
      in if r = [] then None else Some (takeWhile is_rate_char r))"

definition parseFloat :: "string \<Rightarrow> jsnum" where
  \<comment> \<open>on the strings the source passes, which hold digits and dots only: the longest
      prefix \<^verbatim>\<open>digits [. digits]\<close> or \<^verbatim>\<open>. digits\<close> is read as a decimal and rounded to a
      double; with no such prefix the result is NaN\<close>
  "parseFloat s =
     (let ip = takeWhile is_digit s;
          r = dropWhile is_digit s;
          fp = (case r of [] \<Rightarrow> [] | c # r' \<Rightarrow> if c = CHR ''.'' then takeWhile is_digit r' else [])
      in if ip = [] \<and> fp = [] then NaN
         else binary64 (of_nat (digits_value (ip @ fp)) / 10 ^ length fp))"

definition Number_toFixed2 :: "jsnum \<Rightarrow> jsnum" where
  \<comment> \<open>\<^verbatim>\<open>Number(x.toFixed(2))\<close>.  \<^verbatim>\<open>toFixed(2)\<close> writes the integer \<open>n\<close> nearest to \<open>100 * x\<close>
      (the larger of two) with two decimals, and \<^verbatim>\<open>Number\<close> reads that decimal back; from
      \<open>10 ^ 21\<close> on, and for NaN and the infinities, \<^verbatim>\<open>toFixed\<close> gives the Number's own
      string, which reads back as the same Number\<close>
  "Number_toFixed2 x =
     (case x of
        Finite q \<Rightarrow>
          (if 10 ^ 21 \<le> \<bar>q\<bar> then Finite q
           else if q < 0 then binary64 (- (of_int \<lfloor>- q * 100 + 1 / 2\<rfloor> / 100))
           else binary64 (of_int \<lfloor>q * 100 + 1 / 2\<rfloor> / 100))
      | _ \<Rightarrow> x)"

definition extract_rate :: "string \<Rightarrow> jsnum" where
  \<comment> \<open>lines 172-180, from the string of \<^verbatim>\<open>cat.rate\<close> to the stored \<^verbatim>\<open>rate\<close>\<close>
  "extract_rate s =
     (let rateMatch = match_rate s;
          rateString = (case rateMatch of Some t \<Rightarrow> t | None \<Rightarrow> ''0'');
          rate = parseFloat rateString
      in Number_toFixed2 rate)"

subsection \<open>convertAIResponseToCardData\<close>

record category_entry =
  rate :: jsnum
  description :: string

type_synonym categories = "string \<rightharpoonup> category_entry"

record card_data =
  card_id :: string
  card_name :: json
  bank :: json
  card_type :: string
  cashback_categories :: categories

datatype console =
    Log string   \<comment> \<open>\<^verbatim>\<open>console.log\<close>, by its first argument\<close>
  | Warn string  \<comment> \<open>\<^verbatim>\<open>console.warn\<close>, by its first argument\<close>

definition convert_category ::
  "json \<Rightarrow> console list \<times> categories \<Rightarrow> console list \<times> (js_error + categories)" where
  \<comment> \<open>the callback of \<^verbatim>\<open>forEach\<close>, lines 159-183, on the console so far and the object
      \<^verbatim>\<open>cashbackCategories\<close>\<close>
  "convert_category cat st =
     (let (out, cashbackCategories) = st;
          skip = (out @ [Warn ''Skipping invalid category:''], Inr cashbackCategories)
      in case get_prop cat ''category'' of
           Inl e \<Rightarrow> (out, Inl e)
         | Inr category \<Rightarrow>
             if \<not> truthy category then skip
             else
               (case get_prop cat ''rate'' of
                  Inl e \<Rightarrow> (out, Inl e)
                | Inr r \<Rightarrow>
                    if \<not> truthy r then skip
                    else
                      (case toLowerCase_method category of
                         Inl e \<Rightarrow> (out, Inl e)
                       | Inr lowered \<Rightarrow>
                           (let categoryKey =
                                  take 30 (replace_whitespace (replace_special lowered))
                            in case toString_method r of
                                 Inl e \<Rightarrow> (out, Inl e)
                               | Inr rate_text \<Rightarrow>
                                   (case ToString category of
                                      Inl e \<Rightarrow> (out, Inl e)
                                    | Inr category_text \<Rightarrow>
                                        (case ToString r of
                                           Inl e \<Rightarrow> (out, Inl e)
                                         | Inr r_text \<Rightarrow>
                                             (out,
                                              Inr (cashbackCategories(categoryKey \<mapsto>
                                                \<lparr>rate = extract_rate rate_text,
                                                 description = category_text @ '' - '' @ r_text\<rparr>)))))))))"

fun forEach_category ::
  "json list \<Rightarrow> console list \<times> categories \<Rightarrow> console list \<times> (js_error + categories)" where
  "forEach_category [] st = (fst st, Inr (snd st))"
| "forEach_category (cat # cats) st =
     (case convert_category cat st of
        (out, Inl e) \<Rightarrow> (out, Inl e)
      | (out, Inr m) \<Rightarrow> forEach_category cats (out, m))"

text \<open>
  The result of a call is what the caller can observe: the console output, the
  argument object as the call leaves it, and the returned record or the thrown error.
\<close>

definition convertAIResponseToCardData ::
  "json \<Rightarrow> console list \<times> json \<times> (js_error + card_data)" where
  "convertAIResponseToCardData aiResponse =
     (let out = [Log ''Converting AI response:'']
      in case get_prop aiResponse ''card_name'' of
           Inl e \<Rightarrow> (out, aiResponse, Inl e)
         | Inr name \<Rightarrow>
             if \<not> truthy name
             then (out, aiResponse, Inl (Error ''Missing card_name in AI response''))
             else
               (case get_prop aiResponse ''issuer'' of
                  Inl e \<Rightarrow> (out, aiResponse, Inl e)
                | Inr issuer \<Rightarrow>
                    if \<not> truthy issuer
                    then (out, aiResponse, Inl (Error ''Missing issuer in AI response''))
                    else
                      (case get_prop aiResponse ''cashback_categories'' of
                         Inl e \<Rightarrow> (out, aiResponse, Inl e)
                       | Inr cc \<Rightarrow>
                           (let (out1, aiResponse1) =
                                  (if \<not> truthy cc \<or> \<not> isArray cc
                                   then (out @ [Warn ''Missing or invalid cashback_categories, using empty object''],
                                         set_prop aiResponse ''cashback_categories'' (JArr []))
                                   else (out, aiResponse))
                            in case get_prop aiResponse1 ''cashback_categories'' of
                                 Inl e \<Rightarrow> (out1, aiResponse1, Inl e)
                               | Inr (JArr cats) \<Rightarrow>
                                   (case forEach_category cats (out1, Map.empty) of
                                      (out2, Inl e) \<Rightarrow> (out2, aiResponse1, Inl e)
                                    | (out2, Inr cashbackCategories) \<Rightarrow>
                                        (case toLowerCase_method name of
                                           Inl e \<Rightarrow> (out2, aiResponse1, Inl e)
                                         | Inr lowered \<Rightarrow>
                                             (out2 @ [Log ''Converted card data:''],
                                              aiResponse1,
                                              Inr \<lparr>card_id = replace_whitespace (replace_special lowered),
                                                   card_name = name,
                                                   bank = issuer,
                                                   card_type = ''Credit Card'',
                                                   cashback_categories = cashbackCategories\<rparr>)))
                               | Inr _ \<Rightarrow> (out1, aiResponse1, Inl TypeError)))))"

subsection \<open>The card list of the recommendation prompts\<close>

text \<open>
  A card of \<^verbatim>\<open>cardList\<close> is a value read back from the card store.  The pairs of an
  object are taken in the order in which \<^verbatim>\<open>Object.entries\<close> lists them.
\<close>

definition Object_entries :: "json \<Rightarrow> js_error + (string \<times> json) list" where
  "Object_entries v =
     (case v of
        JUndefined \<Rightarrow> Inl TypeError
      | JNull \<Rightarrow> Inl TypeError
      | JObj kvs \<Rightarrow> Inr kvs
      | JArr xs \<Rightarrow> Inr (zip (map nat_digits [0 ..< length xs]) xs)
      | JStr s \<Rightarrow> Inr (zip (map nat_digits [0 ..< length s]) (map (\<lambda>c. JStr [c]) s))
      | _ \<Rightarrow> Inr [])"

definition entry_text :: "string \<times> json \<Rightarrow> js_error + string" where
  \<comment> \<open>\<^verbatim>\<open>([key, value]) => `${value.description || key}`\<close>\<close>
  "entry_text kv =
     (case get_prop (snd kv) ''description'' of
        Inl e \<Rightarrow> Inl e
      | Inr d \<Rightarrow> ToString (if truthy d then d else JStr (fst kv)))"

fun map_throwing :: "('a \<Rightarrow> js_error + 'b) \<Rightarrow> 'a list \<Rightarrow> js_error + 'b list" where
  \<comment> \<open>\<^verbatim>\<open>Array.prototype.map\<close> with a callback that may throw: the first throw ends it\<close>
  "map_throwing f [] = Inr []"
| "map_throwing f (x # xs) =
     (case f x of
        Inl e \<Rightarrow> Inl e
      | Inr y \<Rightarrow> (case map_throwing f xs of Inl e \<Rightarrow> Inl e | Inr ys \<Rightarrow> Inr (y # ys)))"

fun join :: "string \<Rightarrow> string list \<Rightarrow> string" where
  "join sep [] = []"
| "join sep [x] = x"
| "join sep (x # y # ys) = x @ sep @ join sep (y # ys)"

definition format_categories :: "json \<Rightarrow> js_error + string" where
  \<comment> \<open>lines 215-218 and 283-286, from \<^verbatim>\<open>card.cashback_categories\<close>\<close>
  "format_categories cc =
     (if truthy cc
      then (case Object_entries cc of
              Inl e \<Rightarrow> Inl e
            | Inr kvs \<Rightarrow>
                (case map_throwing entry_text kvs of
                   Inl e \<Rightarrow> Inl e
                 | Inr texts \<Rightarrow> Inr (join '', '' texts)))
      else Inr ''No cashback info'')"

definition format_card :: "json \<Rightarrow> js_error + string" where
  \<comment> \<open>the callback of \<^verbatim>\<open>cardList.map\<close>, lines 214-221 and 282-289\<close>
  "format_card card' =
     (case get_prop card' ''cashback_categories'' of
        Inl e \<Rightarrow> Inl e
      | Inr cc \<Rightarrow>
          (case format_categories cc of
             Inl e \<Rightarrow> Inl e
           | Inr categories \<Rightarrow>
               (case get_prop card' ''card_name'' of
                  Inl e \<Rightarrow> Inl e
                | Inr name \<Rightarrow>
                    (case ToString name of
                       Inl e \<Rightarrow> Inl e
                     | Inr name_text \<Rightarrow>
                         (case get_prop card' ''bank'' of
                            Inl e \<Rightarrow> Inl e
                          | Inr b \<Rightarrow>
                              (case ToString b of
                                 Inl e \<Rightarrow> Inl e
                               | Inr bank_text \<Rightarrow>
                                   Inr (name_text @ '' ('' @ bank_text @ ''): '' @ categories)))))))"

definition formattedCardList :: "json list \<Rightarrow> js_error + string" where
  "formattedCardList cardList =
     (case map_throwing format_card cardList of
        Inl e \<Rightarrow> Inl e
      | Inr lines \<Rightarrow> Inr (join [CHR 0x0A] lines))"

subsection \<open>The outbound call and its reply\<close>

text \<open>
  Each helper makes one call to the chat-completions endpoint.  The call is a function
  from the request, held by the text of its user message and the image when there is
  one, to what \<^verbatim>\<open>fetch\<close> settles with: a rejection, or a response with its status and the
  value \<^verbatim>\<open>response.json()\<close> reads from its body (\<open>None\<close> when the body is not JSON).
  \<^verbatim>\<open>JSON.parse\<close> on the content of the reply is a parameter as well.  The
  \<^verbatim>\<open>catch\<close> blocks log and rethrow, so they leave the outcome as it is.
\<close>

datatype request = Request string "string option"

datatype fetch_result = Rejected | Response nat "json option"

type_synonym transport = "request \<Rightarrow> fetch_result"

definition response_ok :: "nat \<Rightarrow> bool" where
  \<comment> \<open>\<^verbatim>\<open>response.ok\<close>: the status is in the range 200-299\<close>
  "response_ok status = (200 \<le> status \<and> status \<le> 299)"

definition get_index :: "json \<Rightarrow> nat \<Rightarrow> js_error + json" where
  \<comment> \<open>\<^verbatim>\<open>v[i]\<close>\<close>
  "get_index v i =
     (case v of
        JUndefined \<Rightarrow> Inl TypeError
      | JNull \<Rightarrow> Inl TypeError
      | JArr xs \<Rightarrow> Inr (if i < length xs then xs ! i else JUndefined)
      | JStr s \<Rightarrow> Inr (if i < length s then JStr [s ! i] else JUndefined)
      | JObj kvs \<Rightarrow> Inr (case map_of kvs (nat_digits i) of None \<Rightarrow> JUndefined | Some w \<Rightarrow> w)
      | _ \<Rightarrow> Inr JUndefined)"

definition api_error :: "nat \<Rightarrow> json \<Rightarrow> js_error" where
  \<comment> \<open>what the block \<^verbatim>\<open>if (!response.ok) { ... }\<close> throws once \<^verbatim>\<open>errorData\<close> is read:
      \<^verbatim>\<open>`OpenAI API error: ${response.status} - ${errorData.error?.message || 'Unknown error'}`\<close>\<close>
  "api_error status errorData =
     (case get_prop errorData ''error'' of
        Inl e \<Rightarrow> e
      | Inr err \<Rightarrow>
          (case (if nullish err then Inr JUndefined else get_prop err ''message'') of
             Inl e \<Rightarrow> e
           | Inr message \<Rightarrow>
               (case ToString (if truthy message then message else JStr ''Unknown error'') of
                  Inl e \<Rightarrow> e
                | Inr text \<Rightarrow> Error (''OpenAI API error: '' @ nat_digits status @ '' - '' @ text))))"

definition read_reply :: "(string \<Rightarrow> json option) \<Rightarrow> fetch_result \<Rightarrow> js_error + json" where
  \<comment> \<open>the code after \<^verbatim>\<open>await fetch(...)\<close>, the same in the four helpers\<close>
  "read_reply JSON_parse r =
     (case r of
        Rejected \<Rightarrow> Inl TypeError
      | Response status body \<Rightarrow>
          if \<not> response_ok status
          then (case body of None \<Rightarrow> Inl SyntaxError | Some errorData \<Rightarrow> Inl (api_error status errorData))
          else
            (case body of
               None \<Rightarrow> Inl SyntaxError
             | Some data \<Rightarrow>
                 (case get_prop data ''choices'' of
                    Inl e \<Rightarrow> Inl e
                  | Inr choices \<Rightarrow>
                      (case get_index choices 0 of
                         Inl e \<Rightarrow> Inl e
                       | Inr choice \<Rightarrow>
                           (case get_prop choice ''message'' of
                              Inl e \<Rightarrow> Inl e
                            | Inr message \<Rightarrow>
                                (case get_prop message ''content'' of
                                   Inl e \<Rightarrow> Inl e
                                 | Inr content \<Rightarrow>
                                     (case ToString content of
                                        Inl e \<Rightarrow> Inl e
                                      | Inr text \<Rightarrow>
                                          (case JSON_parse text of
                                             None \<Rightarrow> Inl SyntaxError
                                           | Some v \<Rightarrow> Inr v))))))))"

definition searchCardWithOpenAI ::
  "transport \<Rightarrow> (string \<Rightarrow> json option) \<Rightarrow> string \<Rightarrow> js_error + json" where
  "searchCardWithOpenAI fetch JSON_parse cardName =
     read_reply JSON_parse
       (fetch (Request (''Find the cashback rates and reward categories for: '' @ cardName) None))"

definition analyzeCardImage ::
  "transport \<Rightarrow> (string \<Rightarrow> json option) \<Rightarrow> string \<Rightarrow> js_error + json" where
  "analyzeCardImage fetch JSON_parse base64Image =
     read_reply JSON_parse
       (fetch (Request
          ''Analyze this credit card image. Extract the card name and issuer from the image. Then provide the typical cashback categories and rates for this card based on your knowledge.''
          (Some (''data:image/jpeg;base64,'' @ base64Image))))"

definition recommendBestCard ::
  "transport \<Rightarrow> (string \<Rightarrow> json option) \<Rightarrow> json list \<Rightarrow> string \<Rightarrow> js_error + json" where
  "recommendBestCard fetch JSON_parse cardList purchaseDescription =
     (case formattedCardList cardList of
        Inl e \<Rightarrow> Inl e
      | Inr cards \<Rightarrow>
          read_reply JSON_parse
            (fetch (Request
               (''Available cards:'' @ [CHR 0x0A] @ cards @ [CHR 0x0A, CHR 0x0A] @ ''Purchase: ''
                  @ purchaseDescription @ [CHR 0x0A, CHR 0x0A]
                  @ ''Which card should I use to maximize cashback?'')
               None)))"

definition recommendCardFromImage ::
  "transport \<Rightarrow> (string \<Rightarrow> json option) \<Rightarrow> string \<Rightarrow> json list \<Rightarrow> js_error + json" where
  "recommendCardFromImage fetch JSON_parse base64Image cardList =
     (case formattedCardList cardList of
        Inl e \<Rightarrow> Inl e
      | Inr cards \<Rightarrow>
          read_reply JSON_parse
            (fetch (Request
               (''Available cards:'' @ [CHR 0x0A] @ cards @ [CHR 0x0A, CHR 0x0A]
                  @ ''Analyze this receipt/purchase and recommend which card gives the best cashback.'')
               (Some (''data:image/jpeg;base64,'' @ base64Image)))))"

section \<open>Notions used to state the properties\<close>

definition is_slug_char :: "char \<Rightarrow> bool" where
  \<comment> \<open>a lowercase letter, a digit or a hyphen\<close>
  "is_slug_char c = (is_lower c \<or> is_digit c \<or> c = CHR ''-'')"

definition is_alnum :: "char \<Rightarrow> bool" where
  "is_alnum c = (c \<in> set ''ABCDEFGHIJKLMNOPQRSTUVWXYZabcdefghijklmnopqrstuvwxyz0123456789'')"

definition well_formed_name :: "string \<Rightarrow> bool" where
  \<comment> \<open>the reading taken of "well-formed names": not empty, and the first and the last
      character are ASCII letters or digits\<close>
  "well_formed_name name = (name \<noteq> [] \<and> is_alnum (hd name) \<and> is_alnum (last name))"

definition chase_reply :: json where
  \<comment> \<open>the mocked model reply of the end-to-end example\<close>
  "chase_reply =
     JObj [(''card_name'', JStr ''Chase Freedom Unlimited''),
           (''issuer'', JStr ''Chase''),
           (''cashback_categories'',
              JArr [JObj [(''category'', JStr ''Dining''), (''rate'', JStr ''3%'')]])]"

definition reaches_categories_check :: "json \<Rightarrow> bool" where
  \<comment> \<open>both required fields are present and truthy, so the call gets to line 151\<close>
  "reaches_categories_check a =
     (case get_prop a ''card_name'' of
        Inl _ \<Rightarrow> False
      | Inr n \<Rightarrow> truthy n \<and> (case get_prop a ''issuer'' of Inl _ \<Rightarrow> False | Inr i \<Rightarrow> truthy i))"

definition categories_missing_or_invalid :: "json \<Rightarrow> bool" where
  \<comment> \<open>\<^verbatim>\<open>cashback_categories\<close> is absent or is not an array\<close>
  "categories_missing_or_invalid a =
     (case get_prop a ''cashback_categories'' of Inl _ \<Rightarrow> False | Inr cc \<Rightarrow> \<not> isArray cc)"

definition contains :: "string \<Rightarrow> string \<Rightarrow> bool" where
  \<comment> \<open>\<open>part\<close> occurs in \<open>whole\<close>\<close>
  "contains whole part = (\<exists>before after. whole = before @ part @ after)"

definition decimal_value :: "string \<Rightarrow> string \<Rightarrow> rat" where
  \<comment> \<open>the decimal value of the numeral with integer digits \<open>ip\<close> and fraction digits \<open>fp\<close>\<close>
  "decimal_value ip fp = of_nat (digits_value ip) + of_nat (digits_value fp) / 10 ^ length fp"

definition approx_reply :: json where
  \<comment> \<open>a reply whose rate text has a full stop before the number\<close>
  "approx_reply =
     JObj [(''card_name'', JStr ''Amex Gold''),
           (''issuer'', JStr ''Amex''),
           (''cashback_categories'',
              JArr [JObj [(''category'', JStr ''Dining''), (''rate'', JStr ''approx. 3%'')]])]"

section \<open>Properties\<close>

subsection \<open>Characters\<close>

lemma lower_digit_not_whitespace:
  "is_lower c \<or> is_digit c \<Longrightarrow> \<not> is_whitespace c"
  by (auto simp: is_lower_def is_digit_def is_whitespace_def)

lemma lower_digit_not_hyphen:
  "is_lower c \<or> is_digit c \<Longrightarrow> c \<noteq> CHR ''-''"
  by (auto simp: is_lower_def is_digit_def)

lemma hyphen_not_kept:
  "\<not> is_lower (CHR ''-'')" "\<not> is_digit (CHR ''-'')" "\<not> is_whitespace (CHR ''-'')"
  by (auto simp: is_lower_def is_digit_def is_whitespace_def)

lemma toLowerCase_unit_slug_char:
  "is_slug_char c \<Longrightarrow> toLowerCase_unit c = c"
  by (auto simp: is_slug_char_def is_lower_def is_digit_def toLowerCase_unit_def)

lemma toLowerCase_alphabet:
  "list_all (\<lambda>c. is_lower (toLowerCase_unit c) \<or> is_digit (toLowerCase_unit c))
     ''ABCDEFGHIJKLMNOPQRSTUVWXYZabcdefghijklmnopqrstuvwxyz0123456789''"
  by code_simp

lemma toLowerCase_unit_alnum:
  "is_alnum c \<Longrightarrow> is_lower (toLowerCase_unit c) \<or> is_digit (toLowerCase_unit c)"
  using toLowerCase_alphabet unfolding is_alnum_def list_all_iff by blast

subsection \<open>The two replacements\<close>

lemma replace_whitespace_set:
  "set (replace_whitespace s) \<subseteq> {c \<in> set s. \<not> is_whitespace c} \<union> {CHR ''-''}"
proof (induction s rule: replace_whitespace.induct)
  case 1
  show ?case by simp
next
  case (2 c cs)
  show ?case
  proof (cases "is_whitespace c")
    case True
    have "set (dropWhile is_whitespace cs) \<subseteq> set cs"
      by (auto dest: set_dropWhileD)
    with 2(1)[OF True] True show ?thesis by auto
  next
    case False
    with 2(2)[OF False] show ?thesis by auto
  qed
qed

lemma replace_whitespace_id:
  "\<forall>c \<in> set s. \<not> is_whitespace c \<Longrightarrow> replace_whitespace s = s"
  by (induction s) auto

lemma replace_whitespace_hd:
  "s \<noteq> [] \<Longrightarrow> \<not> is_whitespace (hd s) \<Longrightarrow>
     replace_whitespace s \<noteq> [] \<and> hd (replace_whitespace s) = hd s"
  by (cases s) auto

lemma last_dropWhile:
  "xs \<noteq> [] \<Longrightarrow> \<not> P (last xs) \<Longrightarrow> dropWhile P xs \<noteq> [] \<and> last (dropWhile P xs) = last xs"
  by (induction xs) (auto split: if_splits)

lemma last_filter_kept:
  "xs \<noteq> [] \<Longrightarrow> P (last xs) \<Longrightarrow> filter P xs \<noteq> [] \<and> last (filter P xs) = last xs"
  by (induction xs) (auto split: if_splits)

lemma replace_whitespace_last:
  "s \<noteq> [] \<Longrightarrow> \<not> is_whitespace (last s) \<Longrightarrow>
     replace_whitespace s \<noteq> [] \<and> last (replace_whitespace s) = last s"
proof (induction s rule: replace_whitespace.induct)
  case 1
  then show ?case by simp
next
  case (2 c cs)
  show ?case
  proof (cases "is_whitespace c")
    case True
    with 2(3,4) have cs: "cs \<noteq> []" "\<not> is_whitespace (last cs)" by (auto split: if_splits)
    then have d: "dropWhile is_whitespace cs \<noteq> []" "last (dropWhile is_whitespace cs) = last cs"
      using last_dropWhile [of cs is_whitespace] by auto
    with 2(1)[OF True] cs True show ?thesis by auto
  next
    case False
    show ?thesis
    proof (cases "cs = []")
      case True
      with False show ?thesis by simp
    next
      case nonempty: False
      with 2(4) have "\<not> is_whitespace (last cs)" by simp
      with 2(2)[OF False nonempty] False nonempty show ?thesis by simp
    qed
  qed
qed

subsection \<open>The record identifier\<close>

lemma card_id_of_chars:
  "c \<in> set (card_id_of name) \<Longrightarrow> is_slug_char c"
  using replace_whitespace_set [of "replace_special (toLowerCase name)"]
  by (auto simp: card_id_of_def replace_special_def is_slug_char_def)

lemma card_id_of_again:
  "card_id_of (card_id_of name) = filter (\<lambda>c. c \<noteq> CHR ''-'') (card_id_of name)"
proof -
  let ?s = "card_id_of name"
  have lower: "toLowerCase ?s = ?s"
    unfolding toLowerCase_def
    by (rule map_idI) (simp add: card_id_of_chars toLowerCase_unit_slug_char)
  have special: "replace_special ?s = filter (\<lambda>c. c \<noteq> CHR ''-'') ?s"
    unfolding replace_special_def
  proof (rule filter_cong [OF refl])
    fix c assume "c \<in> set ?s"
    then have "is_slug_char c" by (rule card_id_of_chars)
    then show "(is_lower c \<or> is_digit c \<or> is_whitespace c) = (c \<noteq> CHR ''-'')"
      using lower_digit_not_hyphen [of c] hyphen_not_kept
      by (auto simp: is_slug_char_def)
  qed
  have "\<forall>c \<in> set (filter (\<lambda>c. c \<noteq> CHR ''-'') ?s). \<not> is_whitespace c"
    using card_id_of_chars [of _ name] lower_digit_not_whitespace
    by (auto simp: is_slug_char_def)
  then have "replace_whitespace (filter (\<lambda>c. c \<noteq> CHR ''-'') ?s) = filter (\<lambda>c. c \<noteq> CHR ''-'') ?s"
    by (rule replace_whitespace_id)
  then show ?thesis
    by (simp add: card_id_of_def [of ?s] lower special)
qed

lemma card_id_of_ends:
  assumes "well_formed_name name"
  shows "card_id_of name \<noteq> [] \<and> hd (card_id_of name) \<noteq> CHR ''-''
           \<and> last (card_id_of name) \<noteq> CHR ''-''"
proof -
  let ?keep = "\<lambda>c. is_lower c \<or> is_digit c \<or> is_whitespace c"
  let ?l = "toLowerCase name"
  let ?r = "replace_special ?l"
  from assms have ne: "name \<noteq> []" and h: "is_alnum (hd name)" and l: "is_alnum (last name)"
    by (auto simp: well_formed_name_def)
  from ne have lne: "?l \<noteq> []" by (simp add: toLowerCase_def)
  have hd_l: "hd ?l = toLowerCase_unit (hd name)"
    using ne by (simp add: toLowerCase_def hd_map)
  have last_l: "last ?l = toLowerCase_unit (last name)"
    using ne by (simp add: toLowerCase_def last_map)
  have kh: "is_lower (hd ?l) \<or> is_digit (hd ?l)"
    using toLowerCase_unit_alnum [OF h] hd_l by simp
  have kl: "is_lower (last ?l) \<or> is_digit (last ?l)"
    using toLowerCase_unit_alnum [OF l] last_l by simp
  have hd_r: "?r \<noteq> [] \<and> hd ?r = hd ?l"
    using lne kh unfolding replace_special_def by (cases ?l) auto
  have last_r: "last ?r = last ?l"
    unfolding replace_special_def using kl lne last_filter_kept [of ?l ?keep] by blast
  have "replace_whitespace ?r \<noteq> [] \<and> hd (replace_whitespace ?r) = hd ?r"
    using hd_r kh lower_digit_not_whitespace [of "hd ?l"]
    by (intro replace_whitespace_hd) auto
  moreover have "last (replace_whitespace ?r) = last ?r"
    using hd_r last_r kl lower_digit_not_whitespace [of "last ?l"]
      replace_whitespace_last [of ?r] by auto
  ultimately show ?thesis
    using hd_r last_r kh kl lower_digit_not_hyphen [of "hd ?l"]
      lower_digit_not_hyphen [of "last ?l"]
    by (simp add: card_id_of_def)
qed

lemma convert_card_id:
  "snd (snd (convertAIResponseToCardData a)) = Inr r \<Longrightarrow>
     \<exists>s. card_name r = JStr s \<and> card_id r = card_id_of s"
  by (auto simp: convertAIResponseToCardData_def Let_def toLowerCase_method_def card_id_of_def
      split: sum.splits if_splits prod.splits json.splits)

text \<open>
  C5, as amended.  The identifier of a returned record is \<open>card_id_of\<close> of its name and
  of nothing else; it holds only lowercase letters, digits and hyphens; for a name that
  starts and ends with a letter or a digit it is not empty and neither starts nor ends
  with a hyphen.  Deriving an identifier from an identifier does not leave it unchanged
  in general: it removes the hyphens (and so changes nothing exactly when there is
  none).
\<close>

theorem card_id_slug:
  "(\<forall>a r. snd (snd (convertAIResponseToCardData a)) = Inr r \<and> card_name r = JStr name
        \<longrightarrow> card_id r = card_id_of name)
   \<and> (\<forall>c \<in> set (card_id_of name). is_lower c \<or> is_digit c \<or> c = CHR ''-'')
   \<and> card_id_of (card_id_of name) = filter (\<lambda>c. c \<noteq> CHR ''-'') (card_id_of name)
   \<and> (well_formed_name name \<longrightarrow>
        card_id_of name \<noteq> [] \<and> hd (card_id_of name) \<noteq> CHR ''-''
          \<and> last (card_id_of name) \<noteq> CHR ''-'')"
proof (intro conjI allI impI ballI)
  fix a r
  assume "snd (snd (convertAIResponseToCardData a)) = Inr r \<and> card_name r = JStr name"
  then show "card_id r = card_id_of name"
    using convert_card_id [of a r] by auto
next
  fix c assume "c \<in> set (card_id_of name)"
  then show "is_lower c \<or> is_digit c \<or> c = CHR ''-''"
    using card_id_of_chars [of c name] by (simp add: is_slug_char_def)
next
  show "card_id_of (card_id_of name) = filter (\<lambda>c. c \<noteq> CHR ''-'') (card_id_of name)"
    by (rule card_id_of_again)
next
  assume "well_formed_name name"
  then show "card_id_of name \<noteq> []" "hd (card_id_of name) \<noteq> CHR ''-''"
    "last (card_id_of name) \<noteq> CHR ''-''"
    using card_id_of_ends by blast+
qed

lemma chase_card_id:
  "card_id_of ''Chase Freedom Unlimited'' = ''chase-freedom-unlimited''"
  by code_simp

lemma chase_well_formed: "well_formed_name ''Chase Freedom Unlimited''"
  by code_simp

theorem card_id_slug_witness:
  "well_formed_name ''Chase Freedom Unlimited''
   \<and> card_id_of ''Chase Freedom Unlimited'' = ''chase-freedom-unlimited''
   \<and> hd (card_id_of ''Chase Freedom Unlimited'') \<noteq> CHR ''-''
   \<and> last (card_id_of ''Chase Freedom Unlimited'') \<noteq> CHR ''-''
   \<and> card_id_of (card_id_of ''Chase Freedom Unlimited'')
       = filter (\<lambda>c. c \<noteq> CHR ''-'') (card_id_of ''Chase Freedom Unlimited'')"
  using card_id_slug [of "''Chase Freedom Unlimited''"] chase_well_formed chase_card_id
  by simp

theorem card_id_not_idempotent:
  "card_id_of ''Chase Freedom'' = ''chase-freedom''
   \<and> card_id_of (card_id_of ''Chase Freedom'') = ''chasefreedom''
   \<and> card_id_of (card_id_of ''Chase Freedom'') \<noteq> card_id_of ''Chase Freedom''"
  by code_simp

subsection \<open>Objects\<close>

lemma map_of_set_own_same: "map_of (set_own kvs key w) key = Some w"
  by (induction kvs key w rule: set_own.induct) auto

lemma map_of_set_own_other: "k \<noteq> key \<Longrightarrow> map_of (set_own kvs key w) k = map_of kvs k"
  by (induction kvs key w rule: set_own.induct) auto

lemma get_prop_set_prop_same:
  "get_prop (set_prop (JObj kvs) key w) key = Inr w"
  by (simp add: get_prop_def set_prop_def map_of_set_own_same)

lemma get_prop_set_prop_other:
  "k \<noteq> key \<Longrightarrow> get_prop (set_prop a key w) k = get_prop a k"
  by (cases a) (simp_all add: get_prop_def set_prop_def map_of_set_own_other)

lemma truthy_get_prop_object:
  "get_prop a key = Inr v \<Longrightarrow> truthy v \<Longrightarrow> \<exists>kvs. a = JObj kvs"
  by (cases a) (auto simp: get_prop_def truthy_def)

lemma get_prop_absent:
  "map_of kvs key = None \<Longrightarrow> get_prop (JObj kvs) key = Inr JUndefined"
  by (simp add: get_prop_def)

lemma get_prop_object: "\<exists>v. get_prop (JObj kvs) key = Inr v"
  by (simp add: get_prop_def)

subsection \<open>The end-to-end example\<close>

lemma dining_key:
  "take 30 (replace_whitespace (replace_special (toLowerCase ''Dining''))) = ''dining''"
  by code_simp

lemma rate_3_percent: "extract_rate ''3%'' = Finite 3"
  by code_simp

text \<open>
  C1.  On the mocked reply for "Chase Freedom Unlimited" the conversion returns the
  record with identifier \<^verbatim>\<open>chase-freedom-unlimited\<close>, that name, the issuer \<^verbatim>\<open>Chase\<close>, and
  a category mapping whose one key \<^verbatim>\<open>dining\<close> is bound to the rate 3 and the description
  \<^verbatim>\<open>Dining - 3%\<close>.  (The record also has the constant field \<^verbatim>\<open>card_type\<close>; the reply is
  left as it was and nothing is warned about.)
\<close>

theorem chase_end_to_end:
  "convertAIResponseToCardData chase_reply =
     ([Log ''Converting AI response:'', Log ''Converted card data:''],
      chase_reply,
      Inr \<lparr>card_id = ''chase-freedom-unlimited'',
           card_name = JStr ''Chase Freedom Unlimited'',
           bank = JStr ''Chase'',
           card_type = ''Credit Card'',
           cashback_categories =
             [''dining'' \<mapsto> \<lparr>rate = Finite 3, description = ''Dining - 3%''\<rparr>]\<rparr>)"
  using chase_card_id
  by (simp add: convertAIResponseToCardData_def chase_reply_def get_prop_def truthy_def
      isArray_def convert_category_def toLowerCase_method_def toString_method_def nullish_def
      card_id_of_def dining_key rate_3_percent)

theorem chase_end_to_end_witness:
  "(case snd (snd (convertAIResponseToCardData chase_reply)) of
      Inl e \<Rightarrow> None
    | Inr r \<Rightarrow> Some (card_id r, card_name r, bank r, cashback_categories r ''dining''))
   = Some (''chase-freedom-unlimited'', JStr ''Chase Freedom Unlimited'', JStr ''Chase'',
           Some \<lparr>rate = Finite 3, description = ''Dining - 3%''\<rparr>)"
  using chase_end_to_end by simp

subsection \<open>The required fields\<close>

lemma convert_card_name_falsy:
  "get_prop a ''card_name'' = Inr n \<Longrightarrow> \<not> truthy n \<Longrightarrow>
     convertAIResponseToCardData a =
       ([Log ''Converting AI response:''], a, Inl (Error ''Missing card_name in AI response''))"
  by (simp add: convertAIResponseToCardData_def)

lemma convert_issuer_falsy:
  "get_prop a ''card_name'' = Inr n \<Longrightarrow> truthy n \<Longrightarrow>
   get_prop a ''issuer'' = Inr i \<Longrightarrow> \<not> truthy i \<Longrightarrow>
     convertAIResponseToCardData a =
       ([Log ''Converting AI response:''], a, Inl (Error ''Missing issuer in AI response''))"
  by (simp add: convertAIResponseToCardData_def)

text \<open>
  C2.  When the parsed answer is an object without the key \<^verbatim>\<open>card_name\<close> or without the
  key \<^verbatim>\<open>issuer\<close>, the conversion throws one of the two "Missing ..." errors and returns no
  record.  It throws before anything else is done: the console holds the first log line
  only (no warning about the categories or about an entry, no "Converted" line), the
  answer is left untouched, and this holds whatever \<^verbatim>\<open>cashback_categories\<close> contains.
\<close>

theorem missing_required_field:
  assumes "map_of kvs ''card_name'' = None \<or> map_of kvs ''issuer'' = None"
  shows "\<exists>msg. convertAIResponseToCardData (JObj kvs)
             = ([Log ''Converting AI response:''], JObj kvs, Inl (Error msg))
           \<and> (msg = ''Missing card_name in AI response'' \<or> msg = ''Missing issuer in AI response'')
           \<and> (map_of kvs ''card_name'' = None \<longrightarrow> msg = ''Missing card_name in AI response'')"
proof -
  obtain n where n: "get_prop (JObj kvs) ''card_name'' = Inr n"
    using get_prop_object by blast
  show ?thesis
  proof (cases "truthy n")
    case False
    with n show ?thesis by (simp add: convert_card_name_falsy)
  next
    case True
    with n have present: "map_of kvs ''card_name'' \<noteq> None"
      by (auto simp: get_prop_def truthy_def split: option.splits)
    with assms have "get_prop (JObj kvs) ''issuer'' = Inr JUndefined"
      by (simp add: get_prop_absent)
    moreover have "\<not> truthy JUndefined" by (simp add: truthy_def)
    ultimately show ?thesis
      using n True present by (simp add: convert_issuer_falsy)
  qed
qed

theorem missing_required_field_witness:
  "map_of [(''issuer'', JStr ''Chase''), (''cashback_categories'', JArr [JNull])] ''card_name'' = None
   \<and> convertAIResponseToCardData
        (JObj [(''issuer'', JStr ''Chase''), (''cashback_categories'', JArr [JNull])])
      = ([Log ''Converting AI response:''],
         JObj [(''issuer'', JStr ''Chase''), (''cashback_categories'', JArr [JNull])],
         Inl (Error ''Missing card_name in AI response''))"
  using missing_required_field
    [of "[(''issuer'', JStr ''Chase''), (''cashback_categories'', JArr [JNull])]"]
  by auto

subsection \<open>Missing or invalid categories\<close>

text \<open>
  C4, as amended.  When \<^verbatim>\<open>card_name\<close> is a non-empty string, \<^verbatim>\<open>issuer\<close> is present and
  truthy, and \<^verbatim>\<open>cashback_categories\<close> is absent or is not an array, the conversion does not
  fail: it warns once, puts an empty array in place of the categories, and returns a
  record whose category mapping is empty.
\<close>

theorem invalid_categories_give_empty_mapping:
  assumes name: "get_prop a ''card_name'' = Inr (JStr n)" "n \<noteq> []"
    and issuer: "get_prop a ''issuer'' = Inr i" "truthy i"
    and cc: "get_prop a ''cashback_categories'' = Inr cc" "\<not> isArray cc"
  shows "convertAIResponseToCardData a =
           ([Log ''Converting AI response:'',
             Warn ''Missing or invalid cashback_categories, using empty object'',
             Log ''Converted card data:''],
            set_prop a ''cashback_categories'' (JArr []),
            Inr \<lparr>card_id = card_id_of n, card_name = JStr n, bank = i,
                 card_type = ''Credit Card'', cashback_categories = Map.empty\<rparr>)"
proof -
  from name obtain kvs where a: "a = JObj kvs"
    using truthy_get_prop_object [of a "''card_name''" "JStr n"] by (auto simp: truthy_def)
  have after: "get_prop (set_prop a ''cashback_categories'' (JArr [])) ''cashback_categories'' = Inr (JArr [])"
    unfolding a by (rule get_prop_set_prop_same)
  show ?thesis
    using name issuer cc after
    by (simp add: convertAIResponseToCardData_def truthy_def toLowerCase_method_def card_id_of_def)
qed

lemma amex_card_id: "card_id_of ''Amex Gold'' = ''amex-gold''"
  by code_simp

theorem invalid_categories_witness:
  "get_prop (JObj [(''card_name'', JStr ''Amex Gold''), (''issuer'', JStr ''Amex''),
                   (''cashback_categories'', JStr ''none'')]) ''cashback_categories''
     = Inr (JStr ''none'')
   \<and> \<not> isArray (JStr ''none'')
   \<and> convertAIResponseToCardData
        (JObj [(''card_name'', JStr ''Amex Gold''), (''issuer'', JStr ''Amex''),
               (''cashback_categories'', JStr ''none'')])
      = ([Log ''Converting AI response:'',
          Warn ''Missing or invalid cashback_categories, using empty object'',
          Log ''Converted card data:''],
         JObj [(''card_name'', JStr ''Amex Gold''), (''issuer'', JStr ''Amex''),
               (''cashback_categories'', JArr [])],
         Inr \<lparr>card_id = ''amex-gold'', card_name = JStr ''Amex Gold'', bank = JStr ''Amex'',
              card_type = ''Credit Card'', cashback_categories = Map.empty\<rparr>)"
  using invalid_categories_give_empty_mapping
    [of "JObj [(''card_name'', JStr ''Amex Gold''), (''issuer'', JStr ''Amex''),
               (''cashback_categories'', JStr ''none'')]"
        "''Amex Gold''" "JStr ''Amex''" "JStr ''none''"]
    amex_card_id
  by (simp add: get_prop_def truthy_def isArray_def set_prop_def)

theorem invalid_categories_can_fail:
  "get_prop (JObj [(''issuer'', JStr ''Chase''), (''cashback_categories'', JStr ''none'')])
       ''cashback_categories'' = Inr (JStr ''none'')
   \<and> \<not> isArray (JStr ''none'')
   \<and> convertAIResponseToCardData
        (JObj [(''issuer'', JStr ''Chase''), (''cashback_categories'', JStr ''none'')])
      = ([Log ''Converting AI response:''],
         JObj [(''issuer'', JStr ''Chase''), (''cashback_categories'', JStr ''none'')],
         Inl (Error ''Missing card_name in AI response''))
   \<and> snd (snd (convertAIResponseToCardData
                   (JObj [(''card_name'', JNum (Finite 123)), (''issuer'', JStr ''Chase'')])))
      = Inl TypeError"
  by (simp add: convertAIResponseToCardData_def get_prop_def truthy_def isArray_def set_prop_def
      toLowerCase_method_def)

subsection \<open>The loop over the categories\<close>

lemma convert_category_skip:
  "get_prop cat ''category'' = Inr c \<Longrightarrow> get_prop cat ''rate'' = Inr r \<Longrightarrow>
   \<not> truthy c \<or> \<not> truthy r \<Longrightarrow>
     convert_category cat (out, m) = (out @ [Warn ''Skipping invalid category:''], Inr m)"
  by (auto simp: convert_category_def Let_def)

lemma convert_category_console:
  "snd (convert_category cat (out, m)) = snd (convert_category cat (out', m))"
  by (simp add: convert_category_def Let_def split: sum.splits)

lemma forEach_category_console:
  "snd (forEach_category cats (out, m)) = snd (forEach_category cats (out', m))"
proof (induction cats arbitrary: out out' m)
  case Nil
  show ?case by simp
next
  case (Cons cat cats)
  obtain o1 r1 where 1: "convert_category cat (out, m) = (o1, r1)" by force
  obtain o2 r2 where 2: "convert_category cat (out', m) = (o2, r2)" by force
  have "r1 = r2"
    using convert_category_console [of cat out m out'] 1 2 by simp
  with 1 2 Cons.IH show ?case
    by (cases r1) auto
qed

lemma forEach_category_skip:
  assumes "get_prop cat ''category'' = Inr c" "get_prop cat ''rate'' = Inr r"
    "\<not> truthy c \<or> \<not> truthy r"
  shows "snd (forEach_category (xs @ cat # ys) (out, m)) = snd (forEach_category (xs @ ys) (out, m))"
proof (induction xs arbitrary: out m)
  case Nil
  show ?case
    using convert_category_skip [OF assms, of out m]
      forEach_category_console [of ys "out @ [Warn ''Skipping invalid category:'']" m out]
    by simp
next
  case (Cons x xs)
  obtain o1 r1 where 1: "convert_category x (out, m) = (o1, r1)" by force
  with Cons.IH show ?case by (cases r1) auto
qed

lemma convert_result:
  assumes "get_prop a ''card_name'' = Inr n" "truthy n"
    and "get_prop a ''issuer'' = Inr i" "truthy i"
    and "get_prop a ''cashback_categories'' = Inr (JArr cats)"
  shows "snd (snd (convertAIResponseToCardData a)) =
           (case snd (forEach_category cats ([], Map.empty)) of
              Inl e \<Rightarrow> Inl e
            | Inr m \<Rightarrow>
                (case toLowerCase_method n of
                   Inl e \<Rightarrow> Inl e
                 | Inr lowered \<Rightarrow>
                     Inr \<lparr>card_id = replace_whitespace (replace_special lowered),
                          card_name = n, bank = i, card_type = ''Credit Card'',
                          cashback_categories = m\<rparr>))"
proof -
  obtain o2 r2 where f: "forEach_category cats ([Log ''Converting AI response:''], Map.empty) = (o2, r2)"
    by force
  then have "snd (forEach_category cats ([], Map.empty)) = r2"
    using forEach_category_console [of cats "[]" Map.empty "[Log ''Converting AI response:'']"]
    by simp
  with f assms show ?thesis
    by (simp add: convertAIResponseToCardData_def truthy_def isArray_def split: sum.splits)
qed

lemma isArray_truthy: "isArray v \<Longrightarrow> truthy v"
  by (cases v) (simp_all add: isArray_def truthy_def)

lemma get_prop_array_object:
  "get_prop a key = Inr (JArr xs) \<Longrightarrow> \<exists>kvs. a = JObj kvs"
  using truthy_get_prop_object [of a key "JArr xs"] by (simp add: truthy_def)

text \<open>
  C10.  An entry whose \<^verbatim>\<open>category\<close> or \<^verbatim>\<open>rate\<close> is falsy (the number 0, the empty string,
  \<^verbatim>\<open>false\<close>, \<^verbatim>\<open>null\<close>, or absent) is skipped with a warning: the callback leaves the category
  mapping as it was, the loop gives the same mapping with and without the entry, and so
  does the whole conversion.  An entry with the numeric rate 0 therefore creates no key.
\<close>

theorem falsy_entry_is_skipped:
  assumes cat: "get_prop cat ''category'' = Inr c" "get_prop cat ''rate'' = Inr r"
    and falsy: "\<not> truthy c \<or> \<not> truthy r"
  shows "convert_category cat (out, m) = (out @ [Warn ''Skipping invalid category:''], Inr m)
    \<and> snd (forEach_category (xs @ cat # ys) (out, m)) = snd (forEach_category (xs @ ys) (out, m))
    \<and> (get_prop a ''cashback_categories'' = Inr (JArr (xs @ cat # ys)) \<longrightarrow>
         snd (snd (convertAIResponseToCardData a))
           = snd (snd (convertAIResponseToCardData
                         (set_prop a ''cashback_categories'' (JArr (xs @ ys))))))
    \<and> \<not> truthy (JNum (Finite 0)) \<and> \<not> truthy (JStr []) \<and> \<not> truthy (JBool False)
    \<and> \<not> truthy JNull \<and> \<not> truthy JUndefined"
proof (intro conjI impI)
  show "convert_category cat (out, m) = (out @ [Warn ''Skipping invalid category:''], Inr m)"
    using cat falsy by (rule convert_category_skip)
  show skip: "snd (forEach_category (xs @ cat # ys) (out, m)) = snd (forEach_category (xs @ ys) (out, m))"
    for out m
    using cat falsy by (rule forEach_category_skip)
  show "\<not> truthy (JNum (Finite 0))" "\<not> truthy (JStr [])" "\<not> truthy (JBool False)"
    "\<not> truthy JNull" "\<not> truthy JUndefined"
    by (simp_all add: truthy_def)
  assume cc: "get_prop a ''cashback_categories'' = Inr (JArr (xs @ cat # ys))"
  let ?a' = "set_prop a ''cashback_categories'' (JArr (xs @ ys))"
  from cc obtain kvs where a: "a = JObj kvs"
    using get_prop_array_object by blast
  have cc': "get_prop ?a' ''cashback_categories'' = Inr (JArr (xs @ ys))"
    unfolding a by (rule get_prop_set_prop_same)
  have name': "get_prop ?a' ''card_name'' = get_prop a ''card_name''"
    by (rule get_prop_set_prop_other) simp
  have issuer': "get_prop ?a' ''issuer'' = get_prop a ''issuer''"
    by (rule get_prop_set_prop_other) simp
  obtain n where n: "get_prop a ''card_name'' = Inr n"
    unfolding a using get_prop_object by blast
  obtain i where i: "get_prop a ''issuer'' = Inr i"
    unfolding a using get_prop_object by blast
  show "snd (snd (convertAIResponseToCardData a)) = snd (snd (convertAIResponseToCardData ?a'))"
  proof (cases "truthy n")
    case False
    then show ?thesis
      using n name' by (simp add: convert_card_name_falsy)
  next
    case tn: True
    show ?thesis
    proof (cases "truthy i")
      case False
      then show ?thesis
        using n name' i issuer' tn by (simp add: convert_issuer_falsy)
    next
      case ti: True
      show ?thesis
        using convert_result [OF n tn i ti cc]
          convert_result [OF n [folded name'] tn i [folded issuer'] ti cc']
          skip [of "[]" Map.empty]
        by simp
    qed
  qed
qed

theorem falsy_entry_is_skipped_witness:
  "get_prop (JObj [(''category'', JStr ''Gas''), (''rate'', JNum (Finite 0))]) ''category''
     = Inr (JStr ''Gas'')
   \<and> get_prop (JObj [(''category'', JStr ''Gas''), (''rate'', JNum (Finite 0))]) ''rate''
     = Inr (JNum (Finite 0))
   \<and> \<not> truthy (JNum (Finite 0))
   \<and> convert_category (JObj [(''category'', JStr ''Gas''), (''rate'', JNum (Finite 0))])
         ([], Map.empty)
       = ([Warn ''Skipping invalid category:''], Inr Map.empty)
   \<and> snd (forEach_category [JObj [(''category'', JStr ''Gas''), (''rate'', JNum (Finite 0))]]
            ([], Map.empty))
       = Inr Map.empty"
  using falsy_entry_is_skipped
    [of "JObj [(''category'', JStr ''Gas''), (''rate'', JNum (Finite 0))]"
        "JStr ''Gas''" "JNum (Finite 0)" "[]" Map.empty "[]" "[]"]
  by (simp add: get_prop_def truthy_def)


subsection \<open>The write to the argument\<close>

lemma input_after_cases:
  "fst (snd (convertAIResponseToCardData a)) =
     (if reaches_categories_check a \<and> categories_missing_or_invalid a
      then set_prop a ''cashback_categories'' (JArr []) else a)"
proof (cases a)
  case (JObj kvs)
  obtain n where n: "get_prop a ''card_name'' = Inr n"
    unfolding JObj using get_prop_object by blast
  obtain i where i: "get_prop a ''issuer'' = Inr i"
    unfolding JObj using get_prop_object by blast
  obtain cc where cc: "get_prop a ''cashback_categories'' = Inr cc"
    unfolding JObj using get_prop_object by blast
  show ?thesis
  proof (cases "truthy n \<and> truthy i")
    case False
    show ?thesis
    proof (cases "truthy n")
      case tn: True
      with False have "\<not> truthy i" by simp
      with tn n i show ?thesis
        by (simp add: convert_issuer_falsy reaches_categories_check_def)
    next
      case fn: False
      with n show ?thesis
        by (simp add: convert_card_name_falsy reaches_categories_check_def)
    qed
  next
    case True
    show ?thesis
    proof (cases "isArray cc")
      case arr: True
      then have "truthy cc" by (rule isArray_truthy)
      with arr True n i cc show ?thesis
        by (auto simp: convertAIResponseToCardData_def reaches_categories_check_def
            categories_missing_or_invalid_def isArray_def Let_def
            split: json.splits sum.splits prod.splits)
    next
      case False
      have after: "get_prop (set_prop a ''cashback_categories'' (JArr [])) ''cashback_categories'' = Inr (JArr [])"
        unfolding JObj by (rule get_prop_set_prop_same)
      from False True n i cc after show ?thesis
        by (auto simp: convertAIResponseToCardData_def reaches_categories_check_def
            categories_missing_or_invalid_def Let_def
            split: sum.splits prod.splits)
    qed
  qed
qed (simp_all add: convertAIResponseToCardData_def get_prop_def truthy_def
      reaches_categories_check_def categories_missing_or_invalid_def)

text \<open>
  C9, as amended.  The conversion is not a pure reader of its argument, and it writes in
  one case only: when both required fields are present and truthy and
  \<^verbatim>\<open>cashback_categories\<close> is absent or not an array, the object the caller passed holds an
  empty array under \<^verbatim>\<open>cashback_categories\<close> after the call, and so differs from what was
  passed.  In every other case the argument is as it was, and in every case all other
  keys read as before.
\<close>

theorem input_written_only_at_categories:
  "fst (snd (convertAIResponseToCardData a)) =
     (if reaches_categories_check a \<and> categories_missing_or_invalid a
      then set_prop a ''cashback_categories'' (JArr []) else a)
   \<and> (\<forall>key. key \<noteq> ''cashback_categories'' \<longrightarrow>
        get_prop (fst (snd (convertAIResponseToCardData a))) key = get_prop a key)
   \<and> (reaches_categories_check a \<and> categories_missing_or_invalid a \<longrightarrow>
        get_prop (fst (snd (convertAIResponseToCardData a))) ''cashback_categories'' = Inr (JArr [])
        \<and> get_prop a ''cashback_categories'' \<noteq> Inr (JArr [])
        \<and> fst (snd (convertAIResponseToCardData a)) \<noteq> a)"
proof (intro conjI allI impI)
  show 1: "fst (snd (convertAIResponseToCardData a)) =
     (if reaches_categories_check a \<and> categories_missing_or_invalid a
      then set_prop a ''cashback_categories'' (JArr []) else a)"
    by (rule input_after_cases)
  show "get_prop (fst (snd (convertAIResponseToCardData a))) key = get_prop a key"
    if "key \<noteq> ''cashback_categories''" for key
    using that by (simp add: 1 get_prop_set_prop_other)
  assume w: "reaches_categories_check a \<and> categories_missing_or_invalid a"
  then obtain kvs where a: "a = JObj kvs"
    by (cases a) (auto simp: reaches_categories_check_def get_prop_def truthy_def)
  show 2: "get_prop (fst (snd (convertAIResponseToCardData a))) ''cashback_categories'' = Inr (JArr [])"
    using w 1 get_prop_set_prop_same [of kvs "''cashback_categories''" "JArr []"]
    by (simp add: a)
  show 3: "get_prop a ''cashback_categories'' \<noteq> Inr (JArr [])"
    using w by (auto simp: categories_missing_or_invalid_def isArray_def)
  from 2 3 show "fst (snd (convertAIResponseToCardData a)) \<noteq> a"
    by auto
qed

theorem input_written_witness:
  "reaches_categories_check (JObj [(''card_name'', JStr ''Amex Gold''), (''issuer'', JStr ''Amex'')])
   \<and> categories_missing_or_invalid
         (JObj [(''card_name'', JStr ''Amex Gold''), (''issuer'', JStr ''Amex'')])
   \<and> fst (snd (convertAIResponseToCardData
                   (JObj [(''card_name'', JStr ''Amex Gold''), (''issuer'', JStr ''Amex'')])))
       = JObj [(''card_name'', JStr ''Amex Gold''), (''issuer'', JStr ''Amex''),
               (''cashback_categories'', JArr [])]
   \<and> fst (snd (convertAIResponseToCardData
                   (JObj [(''card_name'', JStr ''Amex Gold''), (''issuer'', JStr ''Amex'')])))
       \<noteq> JObj [(''card_name'', JStr ''Amex Gold''), (''issuer'', JStr ''Amex'')]"
  using input_written_only_at_categories
    [of "JObj [(''card_name'', JStr ''Amex Gold''), (''issuer'', JStr ''Amex'')]"]
  by (simp add: reaches_categories_check_def categories_missing_or_invalid_def get_prop_def
      truthy_def isArray_def set_prop_def)

theorem input_untouched_when_field_missing:
  "categories_missing_or_invalid (JObj [(''issuer'', JStr ''Chase'')])
   \<and> convertAIResponseToCardData (JObj [(''issuer'', JStr ''Chase'')])
       = ([Log ''Converting AI response:''],
          JObj [(''issuer'', JStr ''Chase'')],
          Inl (Error ''Missing card_name in AI response''))
   \<and> get_prop (fst (snd (convertAIResponseToCardData (JObj [(''issuer'', JStr ''Chase'')]))))
         ''cashback_categories'' = Inr JUndefined"
  by (simp add: categories_missing_or_invalid_def convertAIResponseToCardData_def get_prop_def
      truthy_def isArray_def)

subsection \<open>The card list\<close>

lemma format_categories_falsy:
  "\<not> truthy cc \<Longrightarrow> format_categories cc = Inr ''No cashback info''"
  by (simp add: format_categories_def)

lemma format_card_no_categories:
  assumes "get_prop c ''cashback_categories'' = Inr cc" "\<not> truthy cc"
    and "get_prop c ''card_name'' = Inr n" "ToString n = Inr name_text"
    and "get_prop c ''bank'' = Inr b" "ToString b = Inr bank_text"
  shows "format_card c = Inr (name_text @ '' ('' @ bank_text @ ''): No cashback info'')"
  using assms by (simp add: format_card_def format_categories_falsy)

lemma map_throwing_member:
  "map_throwing f xs = Inr ys \<Longrightarrow> x \<in> set xs \<Longrightarrow> \<exists>y \<in> set ys. f x = Inr y"
proof (induction xs arbitrary: ys)
  case Nil
  then show ?case by simp
next
  case (Cons z zs)
  then show ?case
    by (auto split: sum.splits)
qed

lemma join_contains: "x \<in> set xs \<Longrightarrow> contains (join sep xs) x"
proof (induction sep xs rule: join.induct)
  case (1 sep)
  then show ?case by simp
next
  case (2 sep y)
  then have "join sep [y] = [] @ x @ []" by simp
  then show ?case unfolding contains_def by blast
next
  case (3 sep y z zs)
  show ?case
  proof (cases "x = y")
    case True
    then have "join sep (y # z # zs) = [] @ x @ (sep @ join sep (z # zs))" by simp
    then show ?thesis unfolding contains_def by blast
  next
    case False
    with 3 obtain p q where "join sep (z # zs) = p @ x @ q"
      unfolding contains_def by auto
    then have "join sep (y # z # zs) = (y @ sep @ p) @ x @ q" by simp
    then show ?thesis unfolding contains_def by blast
  qed
qed

lemma formattedCardList_contains:
  assumes "formattedCardList cardList = Inr summary" "c \<in> set cardList"
  shows "\<exists>line. format_card c = Inr line \<and> contains summary line"
proof -
  from assms(1) obtain ls where ls: "map_throwing format_card cardList = Inr ls"
    and summary: "summary = join [CHR 0x0A] ls"
    by (auto simp: formattedCardList_def split: sum.splits)
  from map_throwing_member [OF ls assms(2)] obtain l where "l \<in> set ls" "format_card c = Inr l"
    by blast
  with summary join_contains show ?thesis by blast
qed

text \<open>
  C7, as amended.  For a card whose \<^verbatim>\<open>cashback_categories\<close> is absent or otherwise falsy
  (\<^verbatim>\<open>null\<close>, \<^verbatim>\<open>false\<close>, 0, the empty string), the line of the card is its name, its bank in
  parentheses, a colon and the marker \<^verbatim>\<open>No cashback info\<close>, and the summary of a card list
  with that card contains this line.  (A card whose mapping is present but empty is
  truthy: its line ends after the colon and has no marker.)
\<close>

theorem absent_categories_marker:
  assumes "get_prop c ''cashback_categories'' = Inr cc" "\<not> truthy cc"
    and "get_prop c ''card_name'' = Inr n" "ToString n = Inr name_text"
    and "get_prop c ''bank'' = Inr b" "ToString b = Inr bank_text"
  shows "format_card c = Inr (name_text @ '' ('' @ bank_text @ ''): No cashback info'')
    \<and> (c \<in> set cardList \<and> formattedCardList cardList = Inr summary \<longrightarrow>
         contains summary (name_text @ '' ('' @ bank_text @ ''): No cashback info''))"
  using format_card_no_categories [OF assms] formattedCardList_contains [of cardList summary c]
  by auto

theorem absent_categories_marker_witness:
  "get_prop (JObj [(''card_name'', JStr ''Amex Gold''), (''bank'', JStr ''Amex'')])
      ''cashback_categories'' = Inr JUndefined
   \<and> \<not> truthy JUndefined
   \<and> format_card (JObj [(''card_name'', JStr ''Amex Gold''), (''bank'', JStr ''Amex'')])
       = Inr ''Amex Gold (Amex): No cashback info''"
  using absent_categories_marker
    [of "JObj [(''card_name'', JStr ''Amex Gold''), (''bank'', JStr ''Amex'')]"
        JUndefined "JStr ''Amex Gold''" "''Amex Gold''" "JStr ''Amex''" "''Amex''"]
  by (simp add: get_prop_def truthy_def)

theorem empty_mapping_no_marker:
  "format_card (JObj [(''card_name'', JStr ''Visa''), (''bank'', JStr ''BoA''),
                      (''cashback_categories'', JObj [])])
     = Inr ''Visa (BoA): ''
   \<and> \<not> contains ''Visa (BoA): '' ''No cashback info''"
proof
  show "format_card (JObj [(''card_name'', JStr ''Visa''), (''bank'', JStr ''BoA''),
                      (''cashback_categories'', JObj [])]) = Inr ''Visa (BoA): ''"
    by (simp add: format_card_def format_categories_def get_prop_def truthy_def
        Object_entries_def)
  show "\<not> contains ''Visa (BoA): '' ''No cashback info''"
  proof
    assume "contains ''Visa (BoA): '' ''No cashback info''"
    then obtain p q where "''Visa (BoA): '' = p @ ''No cashback info'' @ q"
      unfolding contains_def by blast
    then have "length ''Visa (BoA): '' = length (p @ ''No cashback info'' @ q)"
      by (rule arg_cong)
    then show False by simp
  qed
qed

subsection \<open>Responses with a failure status\<close>

lemma read_reply_not_ok:
  "\<not> response_ok status \<Longrightarrow>
     read_reply JSON_parse (Response status body)
       = Inl (case body of None \<Rightarrow> SyntaxError | Some errorData \<Rightarrow> api_error status errorData)"
  by (simp add: read_reply_def split: option.splits)

lemma api_error_message:
  assumes "get_prop errorData ''error'' = Inr err" "get_prop err ''message'' = Inr (JStr m)" "m \<noteq> []"
  shows "api_error status errorData = Error (''OpenAI API error: '' @ nat_digits status @ '' - '' @ m)"
proof -
  from assms(2) have "\<not> nullish err"
    by (auto simp: nullish_def get_prop_def)
  with assms show ?thesis
    by (simp add: api_error_def truthy_def)
qed

lemma api_error_unknown:
  assumes "get_prop errorData ''error'' = Inr err"
    "nullish err \<or> (\<exists>message. get_prop err ''message'' = Inr message \<and> \<not> truthy message)"
  shows "api_error status errorData
           = Error (''OpenAI API error: '' @ nat_digits status @ '' - Unknown error'')"
  using assms by (auto simp: api_error_def truthy_def nullish_def)

text \<open>
  C8, as amended.  When the response to the outbound call has a status outside 200-299,
  each of the four helpers throws and returns no result.  What is thrown is decided by
  the body: if it is JSON, the error built from the status and the upstream message
  (\<^verbatim>\<open>OpenAI API error: <status> - <message>\<close>, with \<^verbatim>\<open>Unknown error\<close> when the body has no
  \<^verbatim>\<open>error\<close>); if it is not JSON, the syntax error of \<^verbatim>\<open>response.json()\<close>, which does not
  carry the status.  The recommendation helpers throw earlier, without a call, when the
  card list cannot be formatted.
\<close>

theorem failed_status_raises:
  assumes fetch: "\<forall>request. fetch request = Response status body"
    and status: "\<not> response_ok status"
  shows "searchCardWithOpenAI fetch JSON_parse cardName
           = Inl (case body of None \<Rightarrow> SyntaxError | Some errorData \<Rightarrow> api_error status errorData)
       \<and> analyzeCardImage fetch JSON_parse base64Image
           = Inl (case body of None \<Rightarrow> SyntaxError | Some errorData \<Rightarrow> api_error status errorData)
       \<and> (\<forall>cards. formattedCardList cardList = Inr cards \<longrightarrow>
             recommendBestCard fetch JSON_parse cardList purchaseDescription
               = Inl (case body of None \<Rightarrow> SyntaxError | Some errorData \<Rightarrow> api_error status errorData)
             \<and> recommendCardFromImage fetch JSON_parse base64Image cardList
               = Inl (case body of None \<Rightarrow> SyntaxError | Some errorData \<Rightarrow> api_error status errorData))
       \<and> (\<forall>v. recommendBestCard fetch JSON_parse cardList purchaseDescription \<noteq> Inr v
             \<and> recommendCardFromImage fetch JSON_parse base64Image cardList \<noteq> Inr v)
       \<and> (\<forall>errorData err m.
             get_prop errorData ''error'' = Inr err \<and> get_prop err ''message'' = Inr (JStr m)
               \<and> m \<noteq> [] \<longrightarrow>
             api_error status errorData
               = Error (''OpenAI API error: '' @ nat_digits status @ '' - '' @ m))
       \<and> (\<forall>errorData err.
             get_prop errorData ''error'' = Inr err \<and> nullish err \<longrightarrow>
             api_error status errorData
               = Error (''OpenAI API error: '' @ nat_digits status @ '' - Unknown error''))"
proof -
  let ?e = "case body of None \<Rightarrow> SyntaxError | Some errorData \<Rightarrow> api_error status errorData"
  have reply: "read_reply JSON_parse (fetch request) = Inl ?e" for request
    using fetch status by (simp add: read_reply_not_ok)
  have 1: "searchCardWithOpenAI fetch JSON_parse cardName = Inl ?e"
    by (simp add: searchCardWithOpenAI_def reply)
  have 2: "analyzeCardImage fetch JSON_parse base64Image = Inl ?e"
    by (simp add: analyzeCardImage_def reply)
  have 3: "recommendBestCard fetch JSON_parse cardList purchaseDescription
             = (case formattedCardList cardList of Inl e \<Rightarrow> Inl e | Inr _ \<Rightarrow> Inl ?e)"
    by (simp add: recommendBestCard_def reply split: sum.splits)
  have 4: "recommendCardFromImage fetch JSON_parse base64Image cardList
             = (case formattedCardList cardList of Inl e \<Rightarrow> Inl e | Inr _ \<Rightarrow> Inl ?e)"
    by (simp add: recommendCardFromImage_def reply split: sum.splits)
  have 5: "api_error status errorData
             = Error (''OpenAI API error: '' @ nat_digits status @ '' - '' @ m)"
    if "get_prop errorData ''error'' = Inr err \<and> get_prop err ''message'' = Inr (JStr m) \<and> m \<noteq> []"
    for errorData err m
    using that api_error_message by blast
  have 6: "api_error status errorData
             = Error (''OpenAI API error: '' @ nat_digits status @ '' - Unknown error'')"
    if "get_prop errorData ''error'' = Inr err \<and> nullish err" for errorData err
    using that api_error_unknown by blast
  show ?thesis
    using 1 2 5 6 by (auto simp: 3 4 split: sum.splits)
qed

lemma digits_401: "nat_digits 401 = ''401''"
  by code_simp

theorem failed_status_witness:
  "\<not> response_ok 401
   \<and> searchCardWithOpenAI
        (\<lambda>_. Response 401 (Some (JObj [(''error'', JObj [(''message'', JStr ''Incorrect API key'')])])))
        (\<lambda>_. None) ''Amex Gold''
      = Inl (Error ''OpenAI API error: 401 - Incorrect API key'')
   \<and> recommendBestCard
        (\<lambda>_. Response 401 (Some (JObj [(''error'', JObj [(''message'', JStr ''Incorrect API key'')])])))
        (\<lambda>_. None) [] ''dinner''
      = Inl (Error ''OpenAI API error: 401 - Incorrect API key'')"
  using failed_status_raises
    [of "\<lambda>_. Response 401 (Some (JObj [(''error'', JObj [(''message'', JStr ''Incorrect API key'')])]))"
        401 "Some (JObj [(''error'', JObj [(''message'', JStr ''Incorrect API key'')])])"
        "\<lambda>_. None" "''Amex Gold''" "[]" "[]" "''dinner''"]
    digits_401
  by (simp add: response_ok_def get_prop_def formattedCardList_def api_error_def nullish_def
      truthy_def)

theorem failed_status_without_status:
  "\<not> response_ok 502
   \<and> searchCardWithOpenAI (\<lambda>_. Response 502 None) (\<lambda>_. None) ''Amex Gold'' = Inl SyntaxError
   \<and> recommendBestCard (\<lambda>_. Response 502 None) (\<lambda>_. None) [] ''dinner'' = Inl SyntaxError
   \<and> (\<nexists>message. SyntaxError = Error message)"
  by (simp add: response_ok_def searchCardWithOpenAI_def recommendBestCard_def read_reply_def
      formattedCardList_def)

subsection \<open>Rounding to a double\<close>

lemma pow2_powi: "pow2 e = 2 powi e"
  by (simp add: pow2_def power_int_def power_one_over inverse_eq_divide)

lemma round_half_even_error: "\<bar>of_int (round_half_even x) - x\<bar> \<le> 1 / 2"
proof -
  have "of_int \<lfloor>x\<rfloor> \<le> x" "x < of_int \<lfloor>x\<rfloor> + 1"
    by linarith+
  then show ?thesis
    by (auto simp: round_half_even_def Let_def)
qed

lemma round_half_even_nonneg: "0 \<le> x \<Longrightarrow> 0 \<le> round_half_even x"
  by (auto simp: round_half_even_def Let_def)

lemma ilog2_lower:
  assumes "0 < q"
  shows "2 powi (ilog 2 q) \<le> q"
proof -
  obtain n d where nd: "quotient_of q = (n, d)" by force
  then have d: "0 < d" and q: "q = of_int n / of_int d"
    by (auto dest: quotient_of_denom_pos quotient_of_div)
  with assms have n: "0 < n"
    by (simp add: zero_less_divide_iff)
  define la where "la = floorlog 2 (nat n)"
  define lb where "lb = floorlog 2 (nat d)"
  define e where "e = int la - int lb"
  have la: "2 ^ (la - 1) \<le> nat n" "nat n < 2 ^ la"
    using floorlog_bounds [of "nat n" 2] n by (auto simp: la_def)
  have lb: "2 ^ (lb - 1) \<le> nat d" "nat d < 2 ^ lb"
    using floorlog_bounds [of "nat d" 2] d by (auto simp: lb_def)
  have la1: "1 \<le> la" using la(2) n by (cases la) auto
  have il: "ilog 2 q = (if (2::rat) powi e \<le> q then e else e - 1)"
    by (simp add: ilog_def nd la_def lb_def e_def power_int_def Let_def
        power_one_over inverse_eq_divide)
  show ?thesis
  proof (cases "(2::rat) powi e \<le> q")
    case True
    with il show ?thesis by simp
  next
    case False
    have 1: "(2::rat) ^ (la - 1) \<le> of_int n"
      using la(1) by force
    have 2: "of_int d < (2::rat) ^ lb"
      using lb(2) by force
    have "(2::rat) ^ (la - 1) / 2 ^ lb \<le> of_int n / of_int d"
      using 1 2 d n by (intro frac_le) auto
    then have "(2::rat) ^ (la - 1) / 2 ^ lb \<le> q"
      by (simp add: q)
    moreover have "e - 1 = int (la - 1) - int lb"
      using la1 by (simp add: e_def)
    then have "(2::rat) powi (e - 1) = 2 ^ (la - 1) / 2 ^ lb"
      by (simp add: power_int_diff)
    ultimately show ?thesis
      using il False by simp
  qed
qed


lemma ilog2_small:
  assumes "0 < q" "q < 2 ^ 46"
  shows "ilog 2 q \<le> 45"
proof (rule ccontr)
  assume "\<not> ilog 2 q \<le> 45"
  then have "46 \<le> ilog 2 q" by simp
  then have "(2::rat) powi 46 \<le> 2 powi (ilog 2 q)"
    by (intro power_int_increasing) auto
  also have "\<dots> \<le> q" using assms(1) by (rule ilog2_lower)
  finally show False using assms(2) by simp
qed

lemma binary64_pos_near:
  assumes "0 < q" "q < 2 ^ 46"
  shows "\<exists>x. binary64_pos q = Some x \<and> 0 \<le> x \<and> \<bar>x - q\<bar> \<le> 1 / 256"
proof -
  define e where "e = max (ilog 2 q) (- 1022)"
  define u where "u = pow2 (e - 52)"
  define m where "m = round_half_even (q / u)"
  have e: "e \<le> 45"
    using ilog2_small [OF assms] by (simp add: e_def)
  have u: "0 < u" "u \<le> 1 / 128"
  proof -
    show "0 < u" by (simp add: u_def pow2_powi zero_less_power_int)
    have "(2::rat) powi (e - 52) \<le> 2 powi (- 7)"
      using e by (intro power_int_increasing) auto
    then show "u \<le> 1 / 128"
      by (simp add: u_def pow2_powi power_int_minus)
  qed
  have m: "0 \<le> m"
    using assms(1) u(1) by (simp add: m_def round_half_even_nonneg)
  have "of_int m * u - q = u * (of_int m - q / u)"
    using u(1) by (simp add: field_simps)
  then have "\<bar>of_int m * u - q\<bar> = u * \<bar>of_int m - q / u\<bar>"
    using u(1) by (simp add: abs_mult)
  also have "\<dots> \<le> u * (1 / 2)"
    using round_half_even_error [of "q / u"] u(1)
    by (intro mult_left_mono) (auto simp: m_def)
  also have "\<dots> \<le> 1 / 256"
    using u(2) by simp
  finally have near: "\<bar>of_int m * u - q\<bar> \<le> 1 / 256" .
  then have "of_int m * u < 2 ^ 46 + 1"
    using assms(2) by linarith
  also have "\<dots> \<le> pow2 1024"
    by (simp add: pow2_def)
  finally have "\<not> pow2 1024 \<le> of_int m * u" by simp
  then have "binary64_pos q = Some (of_int m * u)"
    by (simp add: binary64_pos_def Let_def e_def [symmetric] u_def [symmetric] m_def [symmetric])
  with near m u(1) show ?thesis by simp
qed

lemma toFixed2_exact:
  assumes "q = of_nat k / 100" "q < 2 ^ 46"
  shows "Number_toFixed2 (binary64 q) = binary64 q"
proof (cases "k = 0")
  case True
  have "\<lfloor>1 / 2 :: rat\<rfloor> = 0"
    by (rule floor_unique) auto
  with True assms(1) show ?thesis
    by (simp add: binary64_def Number_toFixed2_def)
next
  case False
  with assms(1) have pos: "0 < q" by simp
  from binary64_pos_near [OF pos assms(2)] obtain x
    where x: "binary64_pos q = Some x" "0 \<le> x" "\<bar>x - q\<bar> \<le> 1 / 256"
    by blast
  have b: "binary64 q = Finite x"
    using pos x(1) by (simp add: binary64_def)
  have "x * 100 - of_nat k = 100 * (x - q)"
    using assms(1) by simp
  then have "\<bar>x * 100 - of_nat k\<bar> = \<bar>100 * (x - q)\<bar>"
    by (rule arg_cong)
  then have "\<bar>x * 100 - of_nat k\<bar> = 100 * \<bar>x - q\<bar>"
    by (simp only: abs_mult)
  with x(3) have "\<bar>x * 100 - of_nat k\<bar> \<le> 100 / 256"
    by simp
  then have "of_int (int k) \<le> x * 100 + 1 / 2" "x * 100 + 1 / 2 < of_int (int k) + 1"
    by (simp_all only: of_int_of_nat_eq)
  then have "\<lfloor>x * 100 + 1 / 2\<rfloor> = int k"
    by (rule floor_unique)
  moreover have "\<not> 10 ^ 21 \<le> \<bar>x\<bar>"
  proof -
    have "x \<le> q + 1 / 256" using x(3) by linarith
    with assms(2) have "x < 10 ^ 21" by simp
    with x(2) show ?thesis by simp
  qed
  ultimately have "Number_toFixed2 (Finite x) = binary64 (of_nat k / 100)"
    using x(2) by (simp add: Number_toFixed2_def)
  then show ?thesis
    unfolding assms(1) [symmetric] b by (simp add: b)
qed

subsection \<open>The rate of an entry\<close>

lemma foldl_digits:
  "foldl (\<lambda>n c. 10 * n + digit_value c) a ds
     = a * 10 ^ length ds + foldl (\<lambda>n c. 10 * n + digit_value c) 0 ds"
  by (induction ds rule: rev_induct) (simp_all add: algebra_simps)

lemma digits_value_append:
  "digits_value (xs @ ys) = digits_value xs * 10 ^ length ys + digits_value ys"
  unfolding digits_value_def foldl_append by (rule foldl_digits)

lemma decimal_value_eq:
  "(of_nat (digits_value (ip @ fp)) :: rat) / 10 ^ length fp = decimal_value ip fp"
  by (simp add: digits_value_append decimal_value_def field_simps)

lemma dot_not_digit: "\<not> is_digit (CHR ''.'')"
  by (simp add: is_digit_def)

lemma takeWhile_run:
  "list_all P xs \<Longrightarrow> ys = [] \<or> \<not> P (hd ys) \<Longrightarrow> takeWhile P (xs @ ys) = xs"
  by (cases ys) (auto simp: list_all_iff)

lemma dropWhile_run:
  "list_all P xs \<Longrightarrow> ys = [] \<or> \<not> P (hd ys) \<Longrightarrow> dropWhile P (xs @ ys) = ys"
  by (cases ys) (auto simp: list_all_iff)

lemma match_rate_first:
  assumes "\<forall>c \<in> set pre. \<not> is_rate_char c" "tok \<noteq> []" "list_all is_rate_char tok"
    "rest = [] \<or> \<not> is_rate_char (hd rest)"
  shows "match_rate (pre @ tok @ rest) = Some tok"
proof -
  from assms(2,3) have h: "is_rate_char (hd tok)"
    by (cases tok) auto
  have "dropWhile (\<lambda>c. \<not> is_rate_char c) (pre @ tok @ rest) = tok @ rest"
    using assms(1,2) h by (cases tok) (auto simp: dropWhile_append2)
  moreover have "takeWhile is_rate_char (tok @ rest) = tok"
    using assms(3,4) by (rule takeWhile_run)
  ultimately show ?thesis
    using assms(2) by (simp add: match_rate_def)
qed

lemma match_rate_none:
  "\<forall>c \<in> set s. \<not> is_rate_char c \<Longrightarrow> match_rate s = None"
  by (simp add: match_rate_def)

lemma parseFloat_dotted:
  assumes "list_all is_digit ip" "list_all is_digit fp" "ip \<noteq> [] \<or> fp \<noteq> []"
    "trail = [] \<or> \<not> is_digit (hd trail)"
  shows "parseFloat (ip @ ''.'' @ fp @ trail) = binary64 (decimal_value ip fp)"
proof -
  have 1: "takeWhile is_digit (ip @ CHR ''.'' # fp @ trail) = ip"
    using assms(1) dot_not_digit by (intro takeWhile_run) auto
  have 2: "dropWhile is_digit (ip @ CHR ''.'' # fp @ trail) = CHR ''.'' # fp @ trail"
    using assms(1) dot_not_digit by (intro dropWhile_run) auto
  have 3: "takeWhile is_digit (fp @ trail) = fp"
    using assms(2,4) by (rule takeWhile_run)
  show ?thesis
    using assms(3) by (auto simp: parseFloat_def Let_def 1 2 3 decimal_value_eq)
qed

lemma parseFloat_plain:
  assumes "list_all is_digit ip" "ip \<noteq> []"
  shows "parseFloat ip = binary64 (decimal_value ip [])"
proof -
  have tw: "takeWhile is_digit ip = ip" and dw: "dropWhile is_digit ip = []"
    using assms(1) by (auto simp: list_all_iff)
  show ?thesis
    unfolding parseFloat_def Let_def tw dw
    using assms(2) by (simp add: decimal_value_def digits_value_def)
qed

lemma default_rate: "Number_toFixed2 (parseFloat ''0'') = Finite 0"
  by code_simp

lemma extract_rate_none:
  "\<forall>c \<in> set s. \<not> is_rate_char c \<Longrightarrow> extract_rate s = Finite 0"
  by (simp add: extract_rate_def match_rate_none default_rate)

lemma digits_are_rate_chars: "list_all is_digit ds \<Longrightarrow> list_all is_rate_char ds"
  by (simp add: list_all_iff is_rate_char_def)

lemma extract_rate_plain:
  assumes "\<forall>c \<in> set pre. \<not> is_rate_char c" "list_all is_digit ip" "ip \<noteq> []"
    "rest = [] \<or> \<not> is_rate_char (hd rest)"
  shows "extract_rate (pre @ ip @ rest) = Number_toFixed2 (binary64 (decimal_value ip []))"
  using match_rate_first [OF assms(1,3) digits_are_rate_chars [OF assms(2)] assms(4)]
    parseFloat_plain [OF assms(2,3)]
  by (simp add: extract_rate_def)

lemma extract_rate_dotted:
  assumes "\<forall>c \<in> set pre. \<not> is_rate_char c" "list_all is_digit ip" "list_all is_digit fp"
    "ip \<noteq> [] \<or> fp \<noteq> []" "rest = [] \<or> \<not> is_digit (hd rest)"
  shows "extract_rate (pre @ ip @ ''.'' @ fp @ rest) = Number_toFixed2 (binary64 (decimal_value ip fp))"
proof -
  let ?trail = "takeWhile is_rate_char rest"
  let ?after = "dropWhile is_rate_char rest"
  have tok: "list_all is_rate_char (ip @ ''.'' @ fp @ ?trail)"
    using digits_are_rate_chars [OF assms(2)] digits_are_rate_chars [OF assms(3)]
    by (auto simp: list_all_iff is_rate_char_def dest: set_takeWhileD)
  have after: "?after = [] \<or> \<not> is_rate_char (hd ?after)"
    by (metis hd_dropWhile)
  have "match_rate (pre @ (ip @ ''.'' @ fp @ ?trail) @ ?after) = Some (ip @ ''.'' @ fp @ ?trail)"
    using assms(1) tok after by (intro match_rate_first) auto
  then have m: "match_rate (pre @ ip @ ''.'' @ fp @ rest) = Some (ip @ ''.'' @ fp @ ?trail)"
    by simp
  have trail: "?trail = [] \<or> \<not> is_digit (hd ?trail)"
    using assms(5) by (cases rest) auto
  show ?thesis
    using parseFloat_dotted [OF assms(2,3,4) trail] m
    by (simp add: extract_rate_def)
qed

lemma convert_category_entry:
  assumes "get_prop cat ''category'' = Inr (JStr c)" "c \<noteq> []"
    and "get_prop cat ''rate'' = Inr (JStr s)" "s \<noteq> []"
  shows "convert_category cat (out, m) =
           (out, Inr (m(categoryKey_of c \<mapsto>
                         \<lparr>rate = extract_rate s, description = c @ '' - '' @ s\<rparr>)))"
  using assms
  by (simp add: convert_category_def truthy_def toLowerCase_method_def toString_method_def
      nullish_def categoryKey_of_def)

lemma rate_3_5: "extract_rate ''3.5% cashback'' = Finite (7 / 2)"
  by code_simp

lemma decimal_value_hundredths:
  assumes "length fp \<le> 2"
  shows "\<exists>k. decimal_value ip fp = of_nat k / 100"
proof -
  from assms consider "length fp = 0" | "length fp = 1" | "length fp = 2"
    by linarith
  then show ?thesis
  proof cases
    case 1
    then have "decimal_value ip fp = of_nat (100 * digits_value ip) / 100"
      by (simp add: decimal_value_def digits_value_def)
    then show ?thesis by blast
  next
    case 2
    then have "decimal_value ip fp = of_nat (100 * digits_value ip + 10 * digits_value fp) / 100"
      by (simp add: decimal_value_def field_simps)
    then show ?thesis by blast
  next
    case 3
    then have "decimal_value ip fp = of_nat (100 * digits_value ip + digits_value fp) / 100"
      by (simp add: decimal_value_def field_simps)
    then show ?thesis by blast
  qed
qed

lemma two_places_exact:
  assumes "length fp \<le> 2" "decimal_value ip fp < 2 ^ 46"
  shows "Number_toFixed2 (binary64 (decimal_value ip fp)) = binary64 (decimal_value ip fp)"
  using decimal_value_hundredths [OF assms(1), of ip] toFixed2_exact assms(2) by blast

text \<open>
  C3, as amended.  The rate of an entry with string fields is \<open>extract_rate\<close> of its rate
  string.  When the first run of digits and dots in that string is a decimal numeral
  (digits, or digits and a fraction after one dot), the rate is the double nearest to the
  numeral's value, put through \<^verbatim>\<open>toFixed(2)\<close> and read back; for a numeral with at most two
  fraction digits and a value below \<open>2 ^ 46\<close> that is the double nearest to the value
  itself.  When the string has no digit and no dot, the rate is 0.  (A string whose first
  such run starts with a dot that no digit follows is left out here.)
\<close>

theorem first_token_rate:
  assumes pre: "\<forall>c \<in> set pre. \<not> is_rate_char c"
    and digits: "list_all is_digit ip" "list_all is_digit fp"
  shows "(ip \<noteq> [] \<and> (rest = [] \<or> \<not> is_rate_char (hd rest)) \<longrightarrow>
            extract_rate (pre @ ip @ rest) = Number_toFixed2 (binary64 (decimal_value ip [])))
       \<and> ((ip \<noteq> [] \<or> fp \<noteq> []) \<and> (rest = [] \<or> \<not> is_digit (hd rest)) \<longrightarrow>
            extract_rate (pre @ ip @ ''.'' @ fp @ rest)
              = Number_toFixed2 (binary64 (decimal_value ip fp)))
       \<and> (decimal_value ip [] < 2 ^ 46 \<longrightarrow>
            Number_toFixed2 (binary64 (decimal_value ip [])) = binary64 (decimal_value ip []))
       \<and> (length fp \<le> 2 \<and> decimal_value ip fp < 2 ^ 46 \<longrightarrow>
            Number_toFixed2 (binary64 (decimal_value ip fp)) = binary64 (decimal_value ip fp))
       \<and> extract_rate pre = Finite 0
       \<and> (\<forall>cat c s out m.
             get_prop cat ''category'' = Inr (JStr c) \<and> c \<noteq> []
               \<and> get_prop cat ''rate'' = Inr (JStr s) \<and> s \<noteq> [] \<longrightarrow>
             convert_category cat (out, m)
               = (out, Inr (m(categoryKey_of c \<mapsto>
                              \<lparr>rate = extract_rate s, description = c @ '' - '' @ s\<rparr>))))"
proof (intro conjI impI allI)
  assume "ip \<noteq> [] \<and> (rest = [] \<or> \<not> is_rate_char (hd rest))"
  then show "extract_rate (pre @ ip @ rest) = Number_toFixed2 (binary64 (decimal_value ip []))"
    using extract_rate_plain [OF pre digits(1)] by blast
next
  assume "(ip \<noteq> [] \<or> fp \<noteq> []) \<and> (rest = [] \<or> \<not> is_digit (hd rest))"
  then show "extract_rate (pre @ ip @ ''.'' @ fp @ rest)
               = Number_toFixed2 (binary64 (decimal_value ip fp))"
    using extract_rate_dotted [OF pre digits] by blast
next
  assume "decimal_value ip [] < 2 ^ 46"
  then show "Number_toFixed2 (binary64 (decimal_value ip [])) = binary64 (decimal_value ip [])"
    by (intro two_places_exact) auto
next
  assume "length fp \<le> 2 \<and> decimal_value ip fp < 2 ^ 46"
  then show "Number_toFixed2 (binary64 (decimal_value ip fp)) = binary64 (decimal_value ip fp)"
    by (intro two_places_exact) auto
next
  show "extract_rate pre = Finite 0"
    using pre by (rule extract_rate_none)
next
  fix cat c s out m
  assume "get_prop cat ''category'' = Inr (JStr c) \<and> c \<noteq> []
            \<and> get_prop cat ''rate'' = Inr (JStr s) \<and> s \<noteq> []"
  then show "convert_category cat (out, m)
               = (out, Inr (m(categoryKey_of c \<mapsto>
                              \<lparr>rate = extract_rate s, description = c @ '' - '' @ s\<rparr>)))"
    using convert_category_entry by blast
qed

lemma three_point_five:
  "list_all is_digit ''3'' \<and> list_all is_digit ''5'' \<and> \<not> is_digit (hd ''% cashback'')
     \<and> decimal_value ''3'' ''5'' = 7 / 2 \<and> binary64 (7 / 2) = Finite (7 / 2)"
  by code_simp

lemma no_rate_char_NA: "list_all (\<lambda>c. \<not> is_rate_char c) ''N/A''"
  by code_simp

theorem first_token_rate_witness:
  "list_all is_digit ''3'' \<and> list_all is_digit ''5'' \<and> \<not> is_digit (hd ''% cashback'')
   \<and> decimal_value ''3'' ''5'' = 7 / 2
   \<and> extract_rate ''3.5% cashback'' = Finite (7 / 2)
   \<and> list_all (\<lambda>c. \<not> is_rate_char c) ''N/A''
   \<and> extract_rate ''N/A'' = Finite 0"
  using first_token_rate [of "[]" "''3''" "''5''" "''% cashback''"]
    first_token_rate [of "''N/A''" "[]" "[]" "[]"]
    three_point_five no_rate_char_NA
  by (simp add: list_all_iff)

theorem dot_token_rate:
  "filter is_digit ''N.A.'' = []
   \<and> extract_rate ''N.A.'' = NaN
   \<and> decimal_value ''1'' ''015'' = 1015 / 1000
   \<and> extract_rate ''1.015%'' = binary64 (101 / 100)
   \<and> binary64 (101 / 100) \<noteq> binary64 (102 / 100)"
  by code_simp

lemma rate_approx: "extract_rate ''approx. 3%'' = NaN"
  by code_simp

text \<open>
  C6 fails on the code.  For the rate text \<^verbatim>\<open>approx. 3%\<close> the first match of \<^verbatim>\<open>/[\d.]+/\<close> is
  the full stop, \<^verbatim>\<open>parseFloat(".")\<close> is NaN, and NaN is what the record stores.
\<close>

theorem rate_can_be_NaN:
  "snd (snd (convertAIResponseToCardData approx_reply))
     = Inr \<lparr>card_id = ''amex-gold'',
            card_name = JStr ''Amex Gold'',
            bank = JStr ''Amex'',
            card_type = ''Credit Card'',
            cashback_categories =
              [''dining'' \<mapsto> \<lparr>rate = NaN, description = ''Dining - approx. 3%''\<rparr>]\<rparr>"
  using amex_card_id
  by (simp add: convertAIResponseToCardData_def approx_reply_def get_prop_def truthy_def
      isArray_def convert_category_def toLowerCase_method_def toString_method_def nullish_def
      card_id_of_def dining_key rate_approx)

theorem rate_can_be_NaN_witness:
  "(case snd (snd (convertAIResponseToCardData approx_reply)) of
      Inl e \<Rightarrow> None
    | Inr r \<Rightarrow> map_option rate (cashback_categories r ''dining''))
   = Some NaN"
  using rate_can_be_NaN by simp

end
